theory Spec2Isabelle
  imports Complex_Main
begin

section \<open>JavaScript numbers\<close>

text \<open>
  A \<^verbatim>\<open>number\<close> is an IEEE 754 binary64 value: \<^verbatim>\<open>NaN\<close>, an infinity, or a finite
  double, carried as the real it denotes. Every arithmetic result is rounded to the
  nearest double, ties to even, with gradual underflow below \<open>2 powi (- 1022)\<close> and
  overflow to an infinity from \<open>2 powi 1024\<close> on. The two zeros are not told apart: they compare
  equal under every comparison the code makes. A decimal literal of the source, such
  as \<^verbatim>\<open>0.95\<close>, is the double nearest to it.
\<close>

datatype number = NaN | NegInf | Finite real | PosInf

text \<open>The binary exponent of a positive real: \<open>2 powi ilog2 x \<le> x < 2 powi (ilog2 x + 1)\<close>.\<close>

function ilog2 :: "real \<Rightarrow> int" where
  "ilog2 x =
     (if x \<le> 0 then 0
      else if 2 \<le> x then ilog2 (x / 2) + 1
      else if x < 1 then ilog2 (2 * x) - 1
      else 0)"
  by pat_completeness auto
termination
proof (relation "measure (\<lambda>x. nat \<bar>\<lfloor>log 2 x\<rfloor>\<bar>)")
  show "wf (measure (\<lambda>x. nat \<bar>\<lfloor>log 2 x\<rfloor>\<bar>))"
    by simp
next
  fix x :: real
  assume "\<not> x \<le> 0" "2 \<le> x"
  then have a: "log 2 (x / 2) = log 2 x - 1"
    by (simp add: log_divide)
  have "1 \<le> log 2 x"
    using \<open>2 \<le> x\<close> by (simp add: le_log_iff)
  then have b: "1 \<le> \<lfloor>log 2 x\<rfloor>"
    by (simp add: le_floor_iff)
  have d: "\<lfloor>log 2 (x / 2)\<rfloor> = \<lfloor>log 2 x\<rfloor> - 1"
    unfolding a by simp
  have "nat \<bar>\<lfloor>log 2 (x / 2)\<rfloor>\<bar> < nat \<bar>\<lfloor>log 2 x\<rfloor>\<bar>"
    using b d by linarith
  then show "(x / 2, x) \<in> measure (\<lambda>x. nat \<bar>\<lfloor>log 2 x\<rfloor>\<bar>)"
    by simp
next
  fix x :: real
  assume "\<not> x \<le> 0" "\<not> 2 \<le> x" "x < 1"
  then have a: "log 2 (2 * x) = 1 + log 2 x"
    by (simp add: log_mult)
  have "log 2 x < 0"
    using \<open>\<not> x \<le> 0\<close> \<open>x < 1\<close> by simp
  then have b: "\<lfloor>log 2 x\<rfloor> < 0"
    by (simp add: floor_less_iff)
  have d: "\<lfloor>log 2 (2 * x)\<rfloor> = 1 + \<lfloor>log 2 x\<rfloor>"
    unfolding a by simp
  have "nat \<bar>\<lfloor>log 2 (2 * x)\<rfloor>\<bar> < nat \<bar>\<lfloor>log 2 x\<rfloor>\<bar>"
    using b d by linarith
  then show "(2 * x, x) \<in> measure (\<lambda>x. nat \<bar>\<lfloor>log 2 x\<rfloor>\<bar>)"
    by simp
qed

declare ilog2.simps [simp del]

text \<open>Rounding to the nearest integer, a tie going to the even one.\<close>

definition round_half_even :: "real \<Rightarrow> int" where
  "round_half_even x =
     (let f = \<lfloor>x\<rfloor>; d = x - of_int f
      in if d < 1 / 2 then f
         else if 1 / 2 < d then f + 1
         else if even f then f else f + 1)"

text \<open>
  The exponent a double near \<open>x\<close> carries (never below that of the subnormals), the
  spacing of the doubles there (53 significant bits), and the double nearest to \<open>x\<close>
  when the exponent range is left unbounded above.
\<close>

definition exponent :: "real \<Rightarrow> int" where
  "exponent x = max (ilog2 \<bar>x\<bar>) (- 1022)"

definition ulp :: "real \<Rightarrow> real" where
  "ulp x = 2 powi (exponent x - 52)"

definition nearest :: "real \<Rightarrow> real" where
  "nearest x = of_int (round_half_even (x / ulp x)) * ulp x"

definition to_double :: "real \<Rightarrow> number" where
  "to_double x =
     (if 2 powi 1024 \<le> nearest x then PosInf
      else if nearest x \<le> - (2 powi 1024) then NegInf
      else Finite (nearest x))"

text \<open>
  \<^verbatim>\<open>a * b\<close>, \<^verbatim>\<open>a + b\<close>, \<^verbatim>\<open>a - b\<close>: \<^verbatim>\<open>NaN\<close> is contagious, an infinity times zero and
  the sum of opposite infinities are \<^verbatim>\<open>NaN\<close>, and a finite result is rounded once.
\<close>

fun times_number :: "number \<Rightarrow> number \<Rightarrow> number" where
  "times_number (Finite a) (Finite b) = to_double (a * b)"
| "times_number (Finite a) PosInf = (if a = 0 then NaN else if 0 < a then PosInf else NegInf)"
| "times_number (Finite a) NegInf = (if a = 0 then NaN else if 0 < a then NegInf else PosInf)"
| "times_number PosInf (Finite b) = (if b = 0 then NaN else if 0 < b then PosInf else NegInf)"
| "times_number NegInf (Finite b) = (if b = 0 then NaN else if 0 < b then NegInf else PosInf)"
| "times_number PosInf PosInf = PosInf"
| "times_number PosInf NegInf = NegInf"
| "times_number NegInf PosInf = NegInf"
| "times_number NegInf NegInf = PosInf"
| "times_number NaN b = NaN"
| "times_number a NaN = NaN"

fun plus_number :: "number \<Rightarrow> number \<Rightarrow> number" where
  "plus_number (Finite a) (Finite b) = to_double (a + b)"
| "plus_number (Finite a) PosInf = PosInf"
| "plus_number (Finite a) NegInf = NegInf"
| "plus_number PosInf (Finite b) = PosInf"
| "plus_number NegInf (Finite b) = NegInf"
| "plus_number PosInf PosInf = PosInf"
| "plus_number NegInf NegInf = NegInf"
| "plus_number PosInf NegInf = NaN"
| "plus_number NegInf PosInf = NaN"
| "plus_number NaN b = NaN"
| "plus_number a NaN = NaN"

fun negate :: "number \<Rightarrow> number" where
  "negate (Finite a) = Finite (- a)"
| "negate PosInf = NegInf"
| "negate NegInf = PosInf"
| "negate NaN = NaN"

definition minus_number :: "number \<Rightarrow> number \<Rightarrow> number" where
  "minus_number a b = plus_number a (negate b)"

text \<open>\<^verbatim>\<open>a < b\<close>, \<^verbatim>\<open>a <= b\<close> and \<^verbatim>\<open>a >= b\<close>: false as soon as one side is \<^verbatim>\<open>NaN\<close>.\<close>

fun less_number :: "number \<Rightarrow> number \<Rightarrow> bool" where
  "less_number (Finite a) (Finite b) = (a < b)"
| "less_number (Finite a) PosInf = True"
| "less_number NegInf (Finite b) = True"
| "less_number NegInf PosInf = True"
| "less_number a b = False"

definition le_number :: "number \<Rightarrow> number \<Rightarrow> bool" where
  "le_number a b \<longleftrightarrow> a \<noteq> NaN \<and> b \<noteq> NaN \<and> (less_number a b \<or> a = b)"

definition ge_number :: "number \<Rightarrow> number \<Rightarrow> bool" where
  "ge_number a b = le_number b a"

text \<open>\<^verbatim>\<open>Math.floor(a)\<close>, \<^verbatim>\<open>Math.min(a, b)\<close> and \<^verbatim>\<open>Math.max(a, b)\<close>.\<close>

fun floor_number :: "number \<Rightarrow> number" where
  "floor_number (Finite a) = Finite (of_int \<lfloor>a\<rfloor>)"
| "floor_number a = a"

definition min_number :: "number \<Rightarrow> number \<Rightarrow> number" where
  "min_number a b =
     (if a = NaN \<or> b = NaN then NaN else if less_number b a then b else a)"

definition max_number :: "number \<Rightarrow> number \<Rightarrow> number" where
  "max_number a b =
     (if a = NaN \<or> b = NaN then NaN else if less_number a b then b else a)"

section \<open>Thrown values\<close>

text \<open>
  What a \<^verbatim>\<open>catch (error)\<close> clause can receive, as far as \<^verbatim>\<open>error.message\<close> tells
  values apart: an \<^verbatim>\<open>Error\<close> (or any object) with its message; \<^verbatim>\<open>null\<close> or
  \<^verbatim>\<open>undefined\<close>, on which reading \<^verbatim>\<open>error.message\<close> throws a \<^verbatim>\<open>TypeError\<close>; or any
  other value, whose \<^verbatim>\<open>message\<close> is \<^verbatim>\<open>undefined\<close>. A call that can throw, or a
  promise that can reject, returns a sum, \<open>Inl\<close> carrying what was thrown.
\<close>

datatype thrown = Error string | Nullish | NonError

text \<open>The \<^verbatim>\<open>TypeError\<close> of reading a property of \<^verbatim>\<open>null\<close>; the wording is the engine's.\<close>

definition TypeError :: thrown where
  "TypeError = Error ''Cannot read properties of null (reading message)''"

text \<open>
  \<^verbatim>\<open>catch (error) { throw new Error(`prefix${error.message}`) }\<close>, the clause of
  \<^verbatim>\<open>createIdentity\<close> and \<^verbatim>\<open>updateVerificationLevel\<close>.
\<close>

fun rethrown :: "string \<Rightarrow> thrown \<Rightarrow> thrown" where
  "rethrown prefix (Error message) = Error (prefix @ message)"
| "rethrown prefix NonError = Error (prefix @ ''undefined'')"
| "rethrown prefix Nullish = TypeError"

definition rethrow :: "string \<Rightarrow> thrown + 'a \<Rightarrow> thrown + 'a" where
  "rethrow prefix r = (case r of Inl t \<Rightarrow> Inl (rethrown prefix t) | Inr x \<Rightarrow> Inr x)"

section \<open>Creative identity: verification methods and the verification level\<close>

text \<open>
  The embedding follows \<^verbatim>\<open>src/types/identity.ts\<close> and
  \<^verbatim>\<open>lib/identity/CreativeIdentity.ts\<close>. A \<^verbatim>\<open>Date\<close> is a \<^typ>\<open>nat\<close> (milliseconds).
  The \<^verbatim>\<open>type\<close> of a method is the string it is at run time: the union type of the
  declaration admits five of them, and \<^verbatim>\<open>weights[method.type]\<close> is a property
  lookup that yields no number for any other.
\<close>

datatype MethodStatus = verified | pending | failed | expired

record VerificationMethod =
  type :: string
  status :: MethodStatus
  verifiedAt :: nat
  expiresAt :: "nat option"
  confidence :: number

text \<open>The object literal \<^verbatim>\<open>weights\<close> of \<^verbatim>\<open>calculateVerificationLevel\<close>.\<close>

definition weights :: "(string \<times> number) list" where
  "weights =
     [(''biometric'', Finite 20),
      (''government_id'', Finite 30),
      (''social_proof'', Finite 15),
      (''platform_verification'', Finite 25),
      (''community_vouching'', Finite 10)]"

text \<open>
  \<^verbatim>\<open>weights[method.type] * method.confidence\<close>; the product of \<^verbatim>\<open>undefined\<close> (or of
  an inherited property of the object) and a number is \<^verbatim>\<open>NaN\<close>.
\<close>

definition contribution :: "VerificationMethod \<Rightarrow> number" where
  "contribution method =
     (case map_of weights (type method) of
        None \<Rightarrow> NaN
      | Some weight \<Rightarrow> times_number weight (confidence method))"

text \<open>
  The \<^verbatim>\<open>for (const method of methods)\<close> loop, with the running \<^verbatim>\<open>score\<close> as
  accumulator: only \<^verbatim>\<open>method.status === 'verified'\<close> is tested; \<^verbatim>\<open>expiresAt\<close> is not
  read.
\<close>

fun score_loop :: "number \<Rightarrow> VerificationMethod list \<Rightarrow> number" where
  "score_loop score [] = score"
| "score_loop score (method # methods) =
     score_loop
       (if status method = verified then plus_number score (contribution method) else score)
       methods"

text \<open>\<^verbatim>\<open>return Math.min(100, Math.floor(score))\<close>.\<close>

definition calculateVerificationLevel :: "VerificationMethod list \<Rightarrow> number" where
  "calculateVerificationLevel methods =
     min_number (Finite 100) (floor_number (score_loop (Finite 0) methods))"

subsection \<open>The scoring rule in the words of the specification\<close>

text \<open>
  Section 4.1: only methods with status verified and not expired contribute; the
  contribution is weight times confidence; the contributions are summed, the sum is
  clamped to the interval from 0 to 100 and floored. Expiry is read off the status
  field, the only expiry information the scoring function looks at; the arithmetic is
  that of the numbers above, the sum running from left to right.
\<close>

definition contributes :: "VerificationMethod \<Rightarrow> bool" where
  "contributes m \<longleftrightarrow> status m = verified \<and> status m \<noteq> expired"

definition clamp_number :: "number \<Rightarrow> number \<Rightarrow> number \<Rightarrow> number" where
  "clamp_number lo hi x = max_number lo (min_number hi x)"

definition spec_verification_level :: "VerificationMethod list \<Rightarrow> number" where
  "spec_verification_level methods =
     floor_number
       (clamp_number (Finite 0) (Finite 100)
          (foldl plus_number (Finite 0) (map contribution (filter contributes methods))))"

text \<open>
  Section 3 and section 6: a method is well formed when its type is one of the five
  and its confidence lies in the unit interval; verification addition is to reject a
  method whose confidence is no number that clamping brings into the unit interval,
  or whose type is outside the enumeration.
\<close>

definition known_type :: "VerificationMethod \<Rightarrow> bool" where
  "known_type m \<longleftrightarrow> type m \<in> set (map fst weights)"


text \<open>Scenario A and Scenario B of the specification, and malformed methods.\<close>

definition verified_method :: "string \<Rightarrow> number \<Rightarrow> VerificationMethod" where
  "verified_method t c = \<lparr>type = t, status = verified, verifiedAt = 0, expiresAt = None, confidence = c\<rparr>"

definition scenario_A :: VerificationMethod where
  "scenario_A = verified_method ''biometric'' (to_double (95 / 100))"

definition platform_method :: VerificationMethod where
  "platform_method = verified_method ''platform_verification'' (Finite 1)"

definition negative_biometric :: VerificationMethod where
  "negative_biometric = verified_method ''biometric'' (Finite (- 1))"

definition negative_half_biometric :: VerificationMethod where
  "negative_half_biometric = verified_method ''biometric'' (Finite (- (1 / 2)))"

definition nan_method :: VerificationMethod where
  "nan_method = verified_method ''biometric'' NaN"

definition unknown_type_method :: VerificationMethod where
  "unknown_type_method = verified_method ''retina_scan'' (Finite (1 / 2))"

subsection \<open>Identity records and the collaborators of \<^verbatim>\<open>CreativeIdentity\<close>\<close>

datatype IdentityStatus = id_pending | id_verified | id_suspended | id_revoked

record BiometricData =
  biometricType :: string
  encodedData :: string
  deviceInfo :: string

record PlatformConnectionRequest =
  requestPlatformId :: string
  authorizationCode :: string
  redirectUri :: string

record CreateIdentityRequest =
  biometricData :: BiometricData
  walletAddress :: string
  initialPlatforms :: "PlatformConnectionRequest list option"

text \<open>
  \<^verbatim>\<open>UniversalCreativeID\<close>; \<^verbatim>\<open>connectedPlatforms\<close> is the \<^verbatim>\<open>Map\<close> from platform id
  to connection, the connection type being whatever \<^verbatim>\<open>connectPlatform\<close> returns. The
  fields \<^verbatim>\<open>metadata\<close> and \<^verbatim>\<open>contentCredentials\<close> play no part below and are left out.
\<close>

record 'conn UniversalCreativeID =
  identityId :: string
  version :: nat
  createdAt :: nat
  updatedAt :: nat
  identityStatus :: IdentityStatus
  biometricHash :: string
  identityWallet :: string
  publicKey :: string
  verificationLevel :: number
  verificationMethods :: "VerificationMethod list"
  connectedPlatforms :: "string \<rightharpoonup> 'conn"
  authenticityScore :: number

record 'conn CreateIdentityResponse =
  identity :: "'conn UniversalCreativeID"
  transactionHash :: string
  contractAddress :: string
  qrCode :: string
  backupCodes :: "string list"

text \<open>
  What \<^verbatim>\<open>CreativeIdentity\<close> reaches outside the repository for: the biometric
  verifier (of its result only \<^verbatim>\<open>confidence\<close> is read; a missing confidence behaves
  as \<^verbatim>\<open>NaN\<close> in the one comparison applied to it), the Story Protocol client, the
  \<^verbatim>\<open>ethers\<close> and \<^verbatim>\<open>crypto\<close> libraries behind contract deployment, hashing, identifiers,
  backup codes and the QR code, the signer and the clock.
\<close>

record 'conn Collaborators =
  verifyBiometric :: "BiometricData \<Rightarrow> thrown + number"
  generateUniversalID :: "BiometricData \<Rightarrow> string \<Rightarrow> string"
  hashBiometricData :: "BiometricData \<Rightarrow> string"
  registerCreator :: "string \<Rightarrow> string \<Rightarrow> string \<Rightarrow> thrown + string"
  deployIdentityContract :: "string \<Rightarrow> string \<Rightarrow> string \<Rightarrow> string \<Rightarrow> thrown + (string \<times> string)"
  signerAddress :: string
  now :: nat
  generateBackupCodes :: "string list"
  generateQRCode :: "'conn UniversalCreativeID \<Rightarrow> string"

text \<open>
  The private methods \<^verbatim>\<open>connectPlatform\<close> and \<^verbatim>\<open>getIdentity\<close>, with the bodies the
  repository gives them: the first throws, the second logs and returns \<^verbatim>\<open>null\<close>.
\<close>

definition connectPlatform :: "string \<Rightarrow> PlatformConnectionRequest \<Rightarrow> thrown + 'conn" where
  "connectPlatform ident_id platformReq = Inl (Error ''Platform connection not implemented yet'')"


subsection \<open>\<^verbatim>\<open>createIdentity\<close>\<close>

text \<open>
  Step 6: each initial platform is connected inside its own \<^verbatim>\<open>try\<close>; a success
  stores the connection and adds 10 to \<^verbatim>\<open>verificationLevel\<close>, a failure is logged and
  skipped.
\<close>

fun connect_loop ::
    "PlatformConnectionRequest list \<Rightarrow> 'conn UniversalCreativeID \<Rightarrow> 'conn UniversalCreativeID" where
  "connect_loop [] ident = ident"
| "connect_loop (platformReq # rest) ident =
     connect_loop rest
       (case connectPlatform (identityId ident) platformReq of
          Inr connection \<Rightarrow>
            ident\<lparr>connectedPlatforms :=
                    (connectedPlatforms ident)(requestPlatformId platformReq \<mapsto> connection),
                  verificationLevel := plus_number (verificationLevel ident) (Finite 10)\<rparr>
        | Inl error \<Rightarrow> ident)"

text \<open>Step 5: the identity object literal.\<close>

definition initial_identity ::
    "'conn Collaborators \<Rightarrow> CreateIdentityRequest \<Rightarrow> string \<Rightarrow> number \<Rightarrow>
     'conn UniversalCreativeID" where
  "initial_identity env request newId biometricConfidence =
     \<lparr>identityId = newId,
      version = 1,
      createdAt = now env,
      updatedAt = now env,
      identityStatus = id_pending,
      biometricHash = hashBiometricData env (biometricData request),
      identityWallet = walletAddress request,
      publicKey = signerAddress env,
      verificationLevel = Finite 10,
      verificationMethods =
        [\<lparr>type = ''biometric'', status = verified, verifiedAt = now env, expiresAt = None,
          confidence = biometricConfidence\<rparr>],
      connectedPlatforms = Map.empty,
      authenticityScore = Finite 10\<rparr>"

text \<open>
  The body of the \<^verbatim>\<open>try\<close> block. The guard is
  \<^verbatim>\<open>biometricVerification.confidence < 0.95\<close>, which is false for \<^verbatim>\<open>NaN\<close>.
\<close>

definition createIdentity_try ::
    "'conn Collaborators \<Rightarrow> CreateIdentityRequest \<Rightarrow> thrown + 'conn CreateIdentityResponse" where
  "createIdentity_try env request =
     (case verifyBiometric env (biometricData request) of
        Inl t \<Rightarrow> Inl t
      | Inr biometricConfidence \<Rightarrow>
          if less_number biometricConfidence (to_double (95 / 100))
          then Inl (Error ''Biometric verification failed - insufficient confidence'')
          else
            let newId = generateUniversalID env (biometricData request) (walletAddress request);
                bioHash = hashBiometricData env (biometricData request)
            in (case registerCreator env newId (walletAddress request) bioHash of
                  Inl t \<Rightarrow> Inl t
                | Inr storyProtocolId \<Rightarrow>
                    (case deployIdentityContract env newId (walletAddress request) bioHash
                            storyProtocolId of
                       Inl t \<Rightarrow> Inl t
                     | Inr (address, txHash) \<Rightarrow>
                         let ident0 = initial_identity env request newId biometricConfidence;
                             ident = (case initialPlatforms request of
                                        None \<Rightarrow> ident0
                                      | Some platforms \<Rightarrow> connect_loop platforms ident0)
                         in Inr \<lparr>identity = ident,
                                 transactionHash = txHash,
                                 contractAddress = address,
                                 qrCode = generateQRCode env ident,
                                 backupCodes = generateBackupCodes env\<rparr>)))"

definition createIdentity ::
    "'conn Collaborators \<Rightarrow> CreateIdentityRequest \<Rightarrow> thrown + 'conn CreateIdentityResponse" where
  "createIdentity env request =
     rethrow ''Failed to create identity: '' (createIdentity_try env request)"

subsection \<open>\<^verbatim>\<open>updateVerificationLevel\<close>\<close>

text \<open>
  A run of the method: the identities it hands to \<^verbatim>\<open>storeIdentity\<close>, the updates it
  hands to \<^verbatim>\<open>updateIdentityOnChain\<close> (both only log and cannot throw), and what it
  returns or throws.
\<close>

record 'conn UpdateRun =
  storeIdentityCalls :: "'conn UniversalCreativeID list"
  updateIdentityOnChainCalls :: "(string \<times> number) list"
  outcome :: "thrown + number"

text \<open>
  What the \<^verbatim>\<open>try\<close> block does once it holds an identity: the method is pushed, the
  level recomputed and written, and the identity stored. The chain test reads
  \<^verbatim>\<open>identity.verificationLevel\<close> after it was overwritten with \<^verbatim>\<open>newLevel\<close>, as the
  source does.
\<close>

definition update_identity ::
    "'conn Collaborators \<Rightarrow> string \<Rightarrow> 'conn UniversalCreativeID \<Rightarrow> VerificationMethod \<Rightarrow>
     'conn UpdateRun" where
  "update_identity env ident_id ident newVerification =
     (let methods = verificationMethods ident @ [newVerification];
          newLevel = calculateVerificationLevel methods;
          ident' = ident\<lparr>verificationMethods := methods,
                         verificationLevel := newLevel,
                         updatedAt := now env\<rparr>
      in \<lparr>storeIdentityCalls = [ident'],
          updateIdentityOnChainCalls =
            (if ge_number (minus_number newLevel (verificationLevel ident')) (Finite 10)
             then [(ident_id, newLevel)] else []),
          outcome = Inr newLevel\<rparr>)"


text \<open>
  Collaborators that all succeed, the verifier reporting the given confidence, and a
  request without initial platforms.
\<close>

definition example_biometricData :: BiometricData where
  "example_biometricData =
     \<lparr>biometricType = ''face'', encodedData = ''ZmFjZQ=='', deviceInfo = ''phone''\<rparr>"

definition example_request :: CreateIdentityRequest where
  "example_request =
     \<lparr>biometricData = example_biometricData,
      walletAddress = ''0xabc'',
      initialPlatforms = None\<rparr>"

definition example_env :: "number \<Rightarrow> unit Collaborators" where
  "example_env c =
     \<lparr>verifyBiometric = (\<lambda>b. Inr c),
      generateUniversalID = (\<lambda>b w. ''uci_1''),
      hashBiometricData = (\<lambda>b. ''hash''),
      registerCreator = (\<lambda>i w h. Inr ''story_1''),
      deployIdentityContract = (\<lambda>i w h s. Inr (''0xcontract'', ''0xtx'')),
      signerAddress = ''0xsigner'',
      now = 1000,
      generateBackupCodes = [],
      generateQRCode = (\<lambda>i. ''qr'')\<rparr>"

text \<open>What creation returns for a verifier confidence of 0.95, and of \<^verbatim>\<open>NaN\<close>.\<close>

definition example_identity :: "unit UniversalCreativeID" where
  "example_identity =
     initial_identity (example_env (to_double (95 / 100))) example_request ''uci_1''
       (to_double (95 / 100))"

definition example_response :: "unit CreateIdentityResponse" where
  "example_response =
     \<lparr>identity = example_identity,
      transactionHash = ''0xtx'',
      contractAddress = ''0xcontract'',
      qrCode = ''qr'',
      backupCodes = []\<rparr>"

definition nan_identity :: "unit UniversalCreativeID" where
  "nan_identity = initial_identity (example_env NaN) example_request ''uci_1'' NaN"

definition nan_response :: "unit CreateIdentityResponse" where
  "nan_response =
     \<lparr>identity = nan_identity,
      transactionHash = ''0xtx'',
      contractAddress = ''0xcontract'',
      qrCode = ''qr'',
      backupCodes = []\<rparr>"


section \<open>Cross-platform synchronisation and conflict resolution\<close>

text \<open>
  The classes \<^verbatim>\<open>CrossPlatformSyncEngine\<close> and \<^verbatim>\<open>ConflictResolver\<close> of the sync
  architecture document. A \<^verbatim>\<open>Date.now()\<close> value is a \<^typ>\<open>nat\<close>, a follower count a
  \<^typ>\<open>nat\<close>.
\<close>

datatype ConnectionStatus = connected | conn_verified | conn_expired | conn_revoked

record PlatformConnection =
  platformId :: string
  platformUsername :: string
  platformUserId :: string
  connectionStatus :: ConnectionStatus
  lastSyncTimestamp :: nat

record PersonalInfo =
  displayName :: string
  bio :: string

record VerificationStatus =
  platformsVerified :: "string list"
  profileVerificationLevel :: nat

record CreatorProfile =
  universalId :: string
  personalInfo :: PersonalInfo
  platformConnections :: "PlatformConnection list"
  verificationStatus :: VerificationStatus
  profileLastSync :: nat
  syncVersion :: nat

text \<open>
  \<^verbatim>\<open>PlatformSyncResult\<close>, with the optional parts \<^verbatim>\<open>detectConflicts\<close> reads:
  \<^verbatim>\<open>r.metrics?.followerCount\<close> and \<^verbatim>\<open>r.changes?.profile?.bio\<close>.
\<close>

record ProfileChanges =
  changedBio :: "string option"

record ChangeSet =
  profile :: "ProfileChanges option"

record Metrics =
  followerCount :: "nat option"

record PlatformSyncResult =
  resultPlatformId :: string
  success :: bool
  changes :: "ChangeSet option"
  metrics :: "Metrics option"
  error :: "string option"
  lastSync :: nat

text \<open>
  A JavaScript value as far as \<^verbatim>\<open>resolvedValue\<close> needs it, and the objects collected
  in \<^verbatim>\<open>conflict.values\<close>: the follower entries carry \<^verbatim>\<open>count\<close>, the bio entries
  \<^verbatim>\<open>bio\<close>; neither carries \<^verbatim>\<open>value\<close>.
\<close>

datatype jsval = JUndefined | JNum real | JStr string

record ConflictValue =
  platform :: string
  count :: "nat option"
  candidateBio :: "string option"
  candidateValue :: jsval
  timestamp :: nat

datatype Severity = low | medium | high

record DataConflict =
  conflictType :: string
  field :: string
  conflictValues :: "ConflictValue list"
  severity :: Severity
  autoResolvable :: bool

record ResolutionResult =
  resolvedValue :: jsval
  strategy :: string
  resolutionConfidence :: number
  reasoning :: string

subsection \<open>Helpers of \<^verbatim>\<open>detectConflicts\<close> whose bodies are not in the repository\<close>

text \<open>
  Modelled from the spec: \<^verbatim>\<open>hasSignificantVariance\<close> is called by
  \<^verbatim>\<open>detectConflicts\<close> and defined nowhere. Section 4.3: a numeric conflict is raised
  when the coefficient of variation across the values exceeds the threshold 0.15.
  The coefficient is the population standard deviation over the mean; for a positive
  mean, exceeding 0.15 is the variance exceeding \<open>0.15\<^sup>2\<close> times the squared mean,
  which avoids the square root. An empty list or a zero mean gives no coefficient and
  hence no conflict.
\<close>

definition mean :: "real list \<Rightarrow> real" where
  "mean xs = sum_list xs / real (length xs)"

definition variance :: "real list \<Rightarrow> real" where
  "variance xs = sum_list (map (\<lambda>x. (x - mean xs)\<^sup>2) xs) / real (length xs)"

definition hasSignificantVariance :: "real list \<Rightarrow> bool" where
  "hasSignificantVariance xs \<longleftrightarrow>
     xs \<noteq> [] \<and> 0 < mean xs \<and> (15 / 100)\<^sup>2 * (mean xs)\<^sup>2 < variance xs"

text \<open>
  Modelled from the spec: \<^verbatim>\<open>hasDifferentValues\<close> is called by \<^verbatim>\<open>detectConflicts\<close>
  and defined nowhere. Section 4.3: text values conflict when they differ under a
  comparison that ignores case and whitespace layout. A value is normalised to its
  list of lower-cased words; the values differ when two normal forms differ.
\<close>

definition lower_char :: "char \<Rightarrow> char" where
  "lower_char c =
     (let n = (of_char c :: nat)
      in if 65 \<le> n \<and> n \<le> 90 then char_of (n + 32) else c)"

definition is_space :: "char \<Rightarrow> bool" where
  "is_space c \<longleftrightarrow> (of_char c :: nat) \<in> {9, 10, 13, 32}"

fun split_words :: "string \<Rightarrow> string \<Rightarrow> string list" where
  "split_words word [] = (if word = [] then [] else [word])"
| "split_words word (c # cs) =
     (if is_space c
      then (if word = [] then split_words [] cs else word # split_words [] cs)
      else split_words (word @ [lower_char c]) cs)"

definition normal_form :: "string \<Rightarrow> string list" where
  "normal_form s = split_words [] s"

definition hasDifferentValues :: "string list \<Rightarrow> bool" where
  "hasDifferentValues vs \<longleftrightarrow> 1 < length (remdups (map normal_form vs))"

subsection \<open>\<^verbatim>\<open>ConflictResolver.detectConflicts\<close>\<close>

text \<open>\<^verbatim>\<open>r.metrics?.followerCount || 0\<close>: a missing count, like a count of 0, is 0.\<close>

definition followerCount_or_0 :: "PlatformSyncResult \<Rightarrow> nat" where
  "followerCount_or_0 r =
     (case metrics r of
        None \<Rightarrow> 0
      | Some m \<Rightarrow> (case followerCount m of None \<Rightarrow> 0 | Some n \<Rightarrow> n))"

definition followerCounts :: "PlatformSyncResult list \<Rightarrow> ConflictValue list" where
  "followerCounts syncResults =
     map (\<lambda>r. \<lparr>platform = resultPlatformId r,
               count = Some (followerCount_or_0 r),
               candidateBio = None,
               candidateValue = JUndefined,
               timestamp = lastSync r\<rparr>)
         syncResults"

text \<open>\<^verbatim>\<open>r.changes?.profile?.bio\<close>, and its use as a filter: the empty string is falsy.\<close>

definition bio_change :: "PlatformSyncResult \<Rightarrow> string option" where
  "bio_change r =
     (case changes r of
        None \<Rightarrow> None
      | Some ch \<Rightarrow> (case profile ch of None \<Rightarrow> None | Some p \<Rightarrow> changedBio p))"

definition truthy_bio :: "PlatformSyncResult \<Rightarrow> bool" where
  "truthy_bio r = (case bio_change r of None \<Rightarrow> False | Some b \<Rightarrow> b \<noteq> [])"

definition bioUpdates :: "PlatformSyncResult list \<Rightarrow> ConflictValue list" where
  "bioUpdates syncResults =
     map (\<lambda>r. \<lparr>platform = resultPlatformId r,
               count = None,
               candidateBio = bio_change r,
               candidateValue = JUndefined,
               timestamp = lastSync r\<rparr>)
         (filter truthy_bio syncResults)"

definition bio_text :: "ConflictValue \<Rightarrow> string" where
  "bio_text v = (case candidateBio v of None \<Rightarrow> [] | Some b \<Rightarrow> b)"

definition follower_conflict :: "PlatformSyncResult list \<Rightarrow> DataConflict" where
  "follower_conflict syncResults =
     \<lparr>conflictType = ''follower_count_variance'',
      field = ''metrics.followerCount'',
      conflictValues = followerCounts syncResults,
      severity = medium,
      autoResolvable = True\<rparr>"

definition bio_conflict :: "PlatformSyncResult list \<Rightarrow> DataConflict" where
  "bio_conflict syncResults =
     \<lparr>conflictType = ''bio_conflict'',
      field = ''personalInfo.bio'',
      conflictValues = bioUpdates syncResults,
      severity = high,
      autoResolvable = False\<rparr>"

definition detectConflicts :: "CreatorProfile \<Rightarrow> PlatformSyncResult list \<Rightarrow> DataConflict list" where
  "detectConflicts prof syncResults =
     (if hasSignificantVariance
           (map (\<lambda>f. real (case count f of None \<Rightarrow> 0 | Some n \<Rightarrow> n)) (followerCounts syncResults))
      then [follower_conflict syncResults] else [])
     @ (if 1 < length (bioUpdates syncResults)
           \<and> hasDifferentValues (map bio_text (bioUpdates syncResults))
        then [bio_conflict syncResults] else [])"


subsection \<open>Resolution strategies\<close>

datatype ResolutionStrategy =
  LatestTimestampStrategy | LongestValueStrategy | VerifiedPlatformStrategy
  | WeightedAverageStrategy

text \<open>
  \<^verbatim>\<open>initializeStrategies\<close>: the four \<^verbatim>\<open>resolutionStrategies.set\<close> calls, in order; the
  keys are distinct, so a lookup is \<^const>\<open>map_of\<close>.
\<close>

definition initializeStrategies :: "(string \<times> ResolutionStrategy) list" where
  "initializeStrategies =
     [(''follower_count_variance'', LatestTimestampStrategy),
      (''bio_conflict'', LongestValueStrategy),
      (''username_conflict'', VerifiedPlatformStrategy),
      (''engagement_variance'', WeightedAverageStrategy)]"

text \<open>
  The parts of the resolver the repository names and never defines: the method
  \<^verbatim>\<open>applyResolution\<close> and the classes \<^verbatim>\<open>LongestValueStrategy\<close> and
  \<^verbatim>\<open>WeightedAverageStrategy\<close>. They are parameters; section 4.4 of the specification
  makes strategies pure functions. With them comes the host's rendering of a date,
  \<^verbatim>\<open>String(new Date(timestamp))\<close>, which depends on its time zone.
\<close>

record ResolverParts =
  applyResolution :: "CreatorProfile \<Rightarrow> ResolutionResult \<Rightarrow> CreatorProfile"
  longestValue :: "DataConflict \<Rightarrow> CreatorProfile \<Rightarrow> PlatformSyncResult list \<Rightarrow> ResolutionResult"
  weightedAverage :: "DataConflict \<Rightarrow> CreatorProfile \<Rightarrow> PlatformSyncResult list \<Rightarrow> ResolutionResult"
  dateToString :: "nat \<Rightarrow> string"

text \<open>
  \<^verbatim>\<open>LatestTimestampStrategy.resolve\<close>. \<^verbatim>\<open>reduce\<close> without an initial value throws a
  \<^verbatim>\<open>TypeError\<close> on an empty array and otherwise starts from the first element;
  \<^verbatim>\<open>latest.count || latest.value\<close> falls through to \<^verbatim>\<open>value\<close> when the count is
  missing or 0.
\<close>

definition later :: "ConflictValue \<Rightarrow> ConflictValue \<Rightarrow> ConflictValue" where
  "later previous current =
     (if timestamp current > timestamp previous then current else previous)"

definition reduce_latest :: "ConflictValue list \<Rightarrow> thrown + ConflictValue" where
  "reduce_latest vs =
     (case vs of
        [] \<Rightarrow> Inl (Error ''Reduce of empty array with no initial value'')
      | v # rest \<Rightarrow> Inr (foldl later v rest))"

definition count_or_value :: "ConflictValue \<Rightarrow> jsval" where
  "count_or_value v =
     (case count v of
        None \<Rightarrow> candidateValue v
      | Some n \<Rightarrow> if n = 0 then candidateValue v else JNum (real n))"

definition latestTimestamp_resolve ::
    "ResolverParts \<Rightarrow> DataConflict \<Rightarrow> thrown + ResolutionResult" where
  "latestTimestamp_resolve parts conflict =
     (case reduce_latest (conflictValues conflict) of
        Inl t \<Rightarrow> Inl t
      | Inr latest \<Rightarrow>
          Inr \<lparr>resolvedValue = count_or_value latest,
               strategy = ''latest_timestamp'',
               resolutionConfidence = to_double (9 / 10),
               reasoning =
                 ''Used latest value from '' @ platform latest @ '' (''
                 @ dateToString parts (timestamp latest) @ '')''\<rparr>)"

text \<open>\<^verbatim>\<open>VerifiedPlatformStrategy.resolve\<close>.\<close>

definition verifiedPlatform_resolve ::
    "ResolverParts \<Rightarrow> DataConflict \<Rightarrow> CreatorProfile \<Rightarrow> thrown + ResolutionResult" where
  "verifiedPlatform_resolve parts conflict prof =
     (case find (\<lambda>v. platform v \<in> set (platformsVerified (verificationStatus prof)))
             (conflictValues conflict) of
        Some verifiedValue \<Rightarrow>
          Inr \<lparr>resolvedValue = candidateValue verifiedValue,
               strategy = ''verified_platform'',
               resolutionConfidence = to_double (95 / 100),
               reasoning = ''Used value from verified platform: '' @ platform verifiedValue\<rparr>
      | None \<Rightarrow> latestTimestamp_resolve parts conflict)"

text \<open>The dynamic dispatch \<^verbatim>\<open>strategy.resolve(conflict, profile, syncResults)\<close>.\<close>

fun strategy_resolve ::
    "ResolverParts \<Rightarrow> ResolutionStrategy \<Rightarrow> DataConflict \<Rightarrow> CreatorProfile \<Rightarrow>
     PlatformSyncResult list \<Rightarrow> thrown + ResolutionResult" where
  "strategy_resolve parts LatestTimestampStrategy conflict prof syncResults =
     latestTimestamp_resolve parts conflict"
| "strategy_resolve parts VerifiedPlatformStrategy conflict prof syncResults =
     verifiedPlatform_resolve parts conflict prof"
| "strategy_resolve parts LongestValueStrategy conflict prof syncResults =
     Inr (longestValue parts conflict prof syncResults)"
| "strategy_resolve parts WeightedAverageStrategy conflict prof syncResults =
     Inr (weightedAverage parts conflict prof syncResults)"

subsection \<open>\<^verbatim>\<open>ConflictResolver.resolve\<close>\<close>

text \<open>
  Modelled from the spec: \<^verbatim>\<open>recordConflict\<close> is called by \<^verbatim>\<open>resolve\<close> and has no
  body in the repository. By section 4.4 every resolution is recorded for audit: the
  call appends the conflict and its resolution to the resolver's
  \<^verbatim>\<open>conflictHistory\<close>.
\<close>

record ConflictRecord =
  recordedConflict :: DataConflict
  recordedResolution :: ResolutionResult

text \<open>
  The state of the loop is \<^verbatim>\<open>resolvedProfile\<close> and \<^verbatim>\<open>conflictHistory\<close>. Every
  strategy is handed the original \<^verbatim>\<open>profile\<close>; a throwing strategy ends the loop. The
  loop tests only whether a strategy is registered for \<^verbatim>\<open>conflict.type\<close>; it does not
  read \<^verbatim>\<open>autoResolvable\<close>.
\<close>

fun resolve_loop ::
    "ResolverParts \<Rightarrow> CreatorProfile \<Rightarrow> PlatformSyncResult list \<Rightarrow> DataConflict list \<Rightarrow>
     CreatorProfile \<times> ConflictRecord list \<Rightarrow> thrown + (CreatorProfile \<times> ConflictRecord list)" where
  "resolve_loop parts prof syncResults [] state = Inr state"
| "resolve_loop parts prof syncResults (conflict # conflicts) (resolvedProfile, history) =
     (case map_of initializeStrategies (conflictType conflict) of
        None \<Rightarrow> resolve_loop parts prof syncResults conflicts (resolvedProfile, history)
      | Some chosen \<Rightarrow>
          (case strategy_resolve parts chosen conflict prof syncResults of
             Inl t \<Rightarrow> Inl t
           | Inr resolution \<Rightarrow>
               resolve_loop parts prof syncResults conflicts
                 (applyResolution parts resolvedProfile resolution,
                  history @ [\<lparr>recordedConflict = conflict,
                              recordedResolution = resolution\<rparr>])))"

definition resolve ::
    "ResolverParts \<Rightarrow> ConflictRecord list \<Rightarrow> CreatorProfile \<Rightarrow> PlatformSyncResult list \<Rightarrow>
     thrown + (CreatorProfile \<times> ConflictRecord list)" where
  "resolve parts history prof syncResults =
     resolve_loop parts prof syncResults (detectConflicts prof syncResults) (prof, history)"

subsection \<open>The weighted average in the words of the specification\<close>

text \<open>
  Section 4.4: weight each candidate by the reporting platform's follower count, or 1
  if absent, average, and round to the field's precision; a follower count is an
  integer, and a candidate of a follower conflict is the platform's own count.
\<close>

definition candidate_weight :: "ConflictValue \<Rightarrow> real" where
  "candidate_weight v = (case count v of None \<Rightarrow> 1 | Some n \<Rightarrow> if n = 0 then 1 else real n)"

definition candidate_number :: "ConflictValue \<Rightarrow> real" where
  "candidate_number v = (case count v of None \<Rightarrow> 0 | Some n \<Rightarrow> real n)"

definition spec_weighted_average :: "ConflictValue list \<Rightarrow> int" where
  "spec_weighted_average vs =
     round (sum_list (map (\<lambda>v. candidate_weight v * candidate_number v) vs)
            / sum_list (map candidate_weight vs))"

subsection \<open>\<^verbatim>\<open>CrossPlatformSyncEngine\<close>\<close>

text \<open>
  An adapter fetches raw platform data of some type \<open>'d\<close> and transforms it; of the
  transformed data only \<^verbatim>\<open>metrics\<close> is read, which may be missing, and the
  transformed data itself may be \<^verbatim>\<open>null\<close> or \<^verbatim>\<open>undefined\<close> (\<open>None\<close>). The engine's own
  collaborators (\<^verbatim>\<open>getCreatorProfile\<close>, \<^verbatim>\<open>detectChanges\<close>, \<^verbatim>\<open>updatePlatformCache\<close>,
  \<^verbatim>\<open>updateCreatorProfile\<close>, the adapter table and the clock) have no body in the
  repository and are parameters.
\<close>

record TransformedPlatformData =
  transformedMetrics :: "Metrics option"

record 'd PlatformAdapter =
  fetchProfileData :: "PlatformConnection \<Rightarrow> thrown + 'd"
  transformData :: "'d \<Rightarrow> thrown + TransformedPlatformData option"

record 'd EngineParts =
  platformAdapters :: "string \<rightharpoonup> 'd PlatformAdapter"
  getCreatorProfile :: "string \<Rightarrow> thrown + CreatorProfile"
  detectChanges :: "PlatformConnection \<Rightarrow> 'd \<Rightarrow> thrown + ChangeSet"
  updatePlatformCache :: "string \<Rightarrow> TransformedPlatformData option \<Rightarrow> thrown + unit"
  updateCreatorProfile :: "CreatorProfile \<Rightarrow> thrown + unit"
  clock :: "string \<Rightarrow> nat"
  finishedAt :: nat

text \<open>
  The \<^verbatim>\<open>catch\<close> clause of \<^verbatim>\<open>syncWithPlatform\<close> builds the failure result from
  \<^verbatim>\<open>error.message\<close>: the message of an \<^verbatim>\<open>Error\<close>, \<^verbatim>\<open>undefined\<close> for another value,
  and a \<^verbatim>\<open>TypeError\<close> thrown out of the clause itself when what was caught is
  \<^verbatim>\<open>null\<close> or \<^verbatim>\<open>undefined\<close>; the promise then rejects.
\<close>

definition failure_result ::
    "'d EngineParts \<Rightarrow> PlatformConnection \<Rightarrow> string option \<Rightarrow> PlatformSyncResult" where
  "failure_result engine connection message =
     \<lparr>resultPlatformId = platformId connection,
      success = False,
      changes = None,
      metrics = None,
      error = message,
      lastSync = clock engine (platformId connection)\<rparr>"

fun caught :: "'d EngineParts \<Rightarrow> PlatformConnection \<Rightarrow> thrown \<Rightarrow> thrown + PlatformSyncResult" where
  "caught engine connection (Error message) = Inr (failure_result engine connection (Some message))"
| "caught engine connection NonError = Inr (failure_result engine connection None)"
| "caught engine connection Nullish = Inl TypeError"

text \<open>
  The body of the \<^verbatim>\<open>try\<close> block. The result object is built last, and reading
  \<^verbatim>\<open>transformedData.metrics\<close> there throws a \<^verbatim>\<open>TypeError\<close>, caught like any other
  error, when the transformed data is \<^verbatim>\<open>null\<close> or \<^verbatim>\<open>undefined\<close>.
\<close>

definition syncWithPlatform ::
    "'d EngineParts \<Rightarrow> CreatorProfile \<Rightarrow> PlatformConnection \<Rightarrow> 'd PlatformAdapter \<Rightarrow>
     thrown + PlatformSyncResult" where
  "syncWithPlatform engine prof connection adapter =
     (case fetchProfileData adapter connection of
        Inl t \<Rightarrow> caught engine connection t
      | Inr platformData \<Rightarrow>
          (case detectChanges engine connection platformData of
             Inl t \<Rightarrow> caught engine connection t
           | Inr changeSet \<Rightarrow>
               (case transformData adapter platformData of
                  Inl t \<Rightarrow> caught engine connection t
                | Inr transformed \<Rightarrow>
                    (case updatePlatformCache engine (platformId connection) transformed of
                       Inl t \<Rightarrow> caught engine connection t
                     | Inr u \<Rightarrow>
                         (case transformed of
                            None \<Rightarrow>
                              caught engine connection
                                (Error ''Cannot read properties of null (reading metrics)'')
                          | Some transformedData \<Rightarrow>
                              Inr \<lparr>resultPlatformId = platformId connection,
                                   success = True,
                                   changes = Some changeSet,
                                   metrics = transformedMetrics transformedData,
                                   error = None,
                                   lastSync = clock engine (platformId connection)\<rparr>)))))"

text \<open>
  One element of \<^verbatim>\<open>syncPromises\<close>: it resolves to \<^verbatim>\<open>null\<close> unless an adapter is
  registered and the connection is \<^verbatim>\<open>'connected'\<close>, and it rejects when
  \<^verbatim>\<open>syncWithPlatform\<close> does.
\<close>

definition sync_connection ::
    "'d EngineParts \<Rightarrow> CreatorProfile \<Rightarrow> PlatformConnection \<Rightarrow>
     thrown + PlatformSyncResult option" where
  "sync_connection engine prof connection =
     (case platformAdapters engine (platformId connection) of
        None \<Rightarrow> Inr None
      | Some adapter \<Rightarrow>
          if connectionStatus connection = connected
          then (case syncWithPlatform engine prof connection adapter of
                  Inl t \<Rightarrow> Inl t
                | Inr r \<Rightarrow> Inr (Some r))
          else Inr None)"

text \<open>
  \<^verbatim>\<open>await Promise.all(syncPromises)\<close>: the results in the order of the promises, or
  the rejection of a promise that rejects. Every rejection here is the same
  \<^verbatim>\<open>TypeError\<close>, so which of several comes first in time is immaterial; the first in
  order is taken.
\<close>

fun promise_all :: "(thrown + 'a) list \<Rightarrow> thrown + 'a list" where
  "promise_all [] = Inr []"
| "promise_all (Inl t # rest) = Inl t"
| "promise_all (Inr x # rest) =
     (case promise_all rest of Inl t \<Rightarrow> Inl t | Inr xs \<Rightarrow> Inr (x # xs))"

text \<open>\<^verbatim>\<open>results.filter(r => r !== null)\<close>.\<close>

definition validResults ::
    "'d EngineParts \<Rightarrow> CreatorProfile \<Rightarrow> thrown + PlatformSyncResult list" where
  "validResults engine prof =
     (case promise_all (map (sync_connection engine prof) (platformConnections prof)) of
        Inl t \<Rightarrow> Inl t
      | Inr results \<Rightarrow> Inr (List.map_filter id results))"

text \<open>
  \<^verbatim>\<open>SyncResult\<close>. Its \<^verbatim>\<open>conflicts\<close> and \<^verbatim>\<open>updatedFields\<close> come from
  \<^verbatim>\<open>getConflicts\<close> and \<^verbatim>\<open>getUpdatedFields\<close>, which have no body in the repository;
  the outcome carries instead the resolver's history, the profile handed to
  \<^verbatim>\<open>updateCreatorProfile\<close> and the per-platform results.
\<close>

record SyncResult =
  syncSuccess :: bool
  syncedPlatforms :: "string list"
  syncTimestamp :: nat

record SyncOutcome =
  syncResult :: SyncResult
  updatedProfile :: CreatorProfile
  conflictHistory :: "ConflictRecord list"
  platformResults :: "PlatformSyncResult list"

definition syncCreatorProfile ::
    "'d EngineParts \<Rightarrow> ResolverParts \<Rightarrow> ConflictRecord list \<Rightarrow> string \<Rightarrow> thrown + SyncOutcome" where
  "syncCreatorProfile engine parts history creatorId =
     (case getCreatorProfile engine creatorId of
        Inl t \<Rightarrow> Inl t
      | Inr prof \<Rightarrow>
          (case validResults engine prof of
             Inl t \<Rightarrow> Inl t
           | Inr valid \<Rightarrow>
               (case resolve parts history prof valid of
                  Inl t \<Rightarrow> Inl t
                | Inr (resolvedProfile, history') \<Rightarrow>
                    (case updateCreatorProfile engine resolvedProfile of
                       Inl t \<Rightarrow> Inl t
                     | Inr u \<Rightarrow>
                         Inr \<lparr>syncResult =
                                \<lparr>syncSuccess = list_all success valid,
                                 syncedPlatforms = map resultPlatformId valid,
                                 syncTimestamp = finishedAt engine\<rparr>,
                              updatedProfile = resolvedProfile,
                              conflictHistory = history',
                              platformResults = valid\<rparr>))))"

subsection \<open>Concrete sync cycles\<close>

definition reported :: "string \<Rightarrow> nat option \<Rightarrow> string option \<Rightarrow> nat \<Rightarrow> PlatformSyncResult" where
  "reported p followers newBio time =
     \<lparr>resultPlatformId = p,
      success = True,
      changes = Some \<lparr>profile = Some \<lparr>changedBio = newBio\<rparr>\<rparr>,
      metrics = Some \<lparr>followerCount = followers\<rparr>,
      error = None,
      lastSync = time\<rparr>"

definition unreachable :: "string \<Rightarrow> nat \<Rightarrow> PlatformSyncResult" where
  "unreachable p time =
     \<lparr>resultPlatformId = p,
      success = False,
      changes = None,
      metrics = None,
      error = Some ''rate limited'',
      lastSync = time\<rparr>"

text \<open>Scenario C: follower counts 1000 and 1400. Scenario D: two different new bios.\<close>

definition scenario_C :: "PlatformSyncResult list" where
  "scenario_C =
     [reported ''tiktok'' (Some 1000) None 1, reported ''instagram'' (Some 1400) None 2]"

definition scenario_D :: "PlatformSyncResult list" where
  "scenario_D =
     [reported ''tiktok'' (Some 1000) (Some ''Dancer and singer'') 1,
      reported ''instagram'' (Some 1000) (Some ''Painter'') 2]"

text \<open>One platform reports a follower count, the other could not be reached.\<close>

definition single_reporter :: "PlatformSyncResult list" where
  "single_reporter = [reported ''tiktok'' (Some 1000) None 1, unreachable ''instagram'' 2]"

text \<open>Two platforms report a new bio, one of them the empty string.\<close>

definition empty_bio_cycle :: "PlatformSyncResult list" where
  "empty_bio_cycle =
     [reported ''tiktok'' (Some 1000) (Some []) 1,
      reported ''instagram'' (Some 1000) (Some ''Painter'') 2]"

text \<open>A cycle with a single platform.\<close>

definition single_platform :: "PlatformSyncResult list" where
  "single_platform = [reported ''tiktok'' (Some 1000) (Some ''Dancer'') 1]"

definition example_connection :: "string \<Rightarrow> PlatformConnection" where
  "example_connection p =
     \<lparr>platformId = p,
      platformUsername = ''creator'',
      platformUserId = ''42'',
      connectionStatus = connected,
      lastSyncTimestamp = 0\<rparr>"

definition example_profile :: CreatorProfile where
  "example_profile =
     \<lparr>universalId = ''uci_1'',
      personalInfo = \<lparr>displayName = ''Creator'', bio = ''Old bio''\<rparr>,
      platformConnections = [example_connection ''tiktok'', example_connection ''instagram''],
      verificationStatus = \<lparr>platformsVerified = [], profileVerificationLevel = 10\<rparr>,
      profileLastSync = 0,
      syncVersion = 1\<rparr>"

text \<open>
  An engine whose TikTok adapter answers (raw data: the follower count; no profile
  change) and whose Instagram adapter throws the given value.
\<close>

definition tiktok_adapter :: "nat PlatformAdapter" where
  "tiktok_adapter =
     \<lparr>fetchProfileData = (\<lambda>c. Inr 1000),
      transformData =
        (\<lambda>d. Inr (Some \<lparr>transformedMetrics = Some \<lparr>followerCount = Some d\<rparr>\<rparr>))\<rparr>"

definition instagram_adapter :: "thrown \<Rightarrow> nat PlatformAdapter" where
  "instagram_adapter t =
     \<lparr>fetchProfileData = (\<lambda>c. Inl t),
      transformData =
        (\<lambda>d. Inr (Some \<lparr>transformedMetrics = Some \<lparr>followerCount = Some d\<rparr>\<rparr>))\<rparr>"

definition example_engine :: "thrown \<Rightarrow> nat EngineParts" where
  "example_engine t =
     \<lparr>platformAdapters =
        map_of [(''tiktok'', tiktok_adapter), (''instagram'', instagram_adapter t)],
      getCreatorProfile = (\<lambda>i. Inr example_profile),
      detectChanges = (\<lambda>c d. Inr \<lparr>profile = Some \<lparr>changedBio = None\<rparr>\<rparr>),
      updatePlatformCache = (\<lambda>p m. Inr ()),
      updateCreatorProfile = (\<lambda>p. Inr ()),
      clock = (\<lambda>p. if p = ''tiktok'' then 1 else 2),
      finishedAt = 3\<rparr>"

text \<open>
  Resolver parts for the examples: a longest-value strategy in the sense of section
  4.4 (the longer bio), an \<^verbatim>\<open>applyResolution\<close> that writes a resolved string into the
  bio, a weighted average taken from the specification's formula, and a host that
  renders every date alike.
\<close>

definition longer :: "ConflictValue \<Rightarrow> ConflictValue \<Rightarrow> ConflictValue" where
  "longer previous current =
     (if length (bio_text current) > length (bio_text previous) then current else previous)"

definition example_parts :: ResolverParts where
  "example_parts =
     \<lparr>applyResolution =
        (\<lambda>p r. case resolvedValue r of
                  JStr b \<Rightarrow> p\<lparr>personalInfo := (personalInfo p)\<lparr>bio := b\<rparr>\<rparr>
                | JNum n \<Rightarrow> p
                | JUndefined \<Rightarrow> p),
      longestValue =
        (\<lambda>c p rs. \<lparr>resolvedValue =
                      (case conflictValues c of
                         [] \<Rightarrow> JUndefined
                       | v # vs \<Rightarrow> JStr (bio_text (foldl longer v vs))),
                    strategy = ''longest_value'',
                    resolutionConfidence = to_double (8 / 10),
                    reasoning = ''Used longest value''\<rparr>),
      weightedAverage =
        (\<lambda>c p rs. \<lparr>resolvedValue = JNum (real_of_int (spec_weighted_average (conflictValues c))),
                    strategy = ''weighted_average'',
                    resolutionConfidence = to_double (8 / 10),
                    reasoning = ''Used weighted average''\<rparr>),
      dateToString = (\<lambda>time. ''1970-01-01'')\<rparr>"

section \<open>Properties of the number model\<close>

subsection \<open>Binary exponents\<close>

lemma ilog2_bounds:
  "0 < x \<Longrightarrow> 2 powi ilog2 x \<le> x \<and> x < 2 powi (ilog2 x + 1)"
proof (induction x rule: ilog2.induct)
  case (1 x)
  show ?case
  proof (cases "2 \<le> x")
    case True
    with 1 have ih: "2 powi ilog2 (x / 2) \<le> x / 2 \<and> x / 2 < 2 powi (ilog2 (x / 2) + 1)"
      by simp
    have e: "ilog2 x = ilog2 (x / 2) + 1"
      using True "1.prems" by (subst ilog2.simps) simp
    show ?thesis
      unfolding e using ih by (simp add: power_int_add)
  next
    case False
    show ?thesis
    proof (cases "x < 1")
      case True
      with 1 False have ih: "2 powi ilog2 (2 * x) \<le> 2 * x \<and> 2 * x < 2 powi (ilog2 (2 * x) + 1)"
        by simp
      have e: "ilog2 x = ilog2 (2 * x) - 1"
        using True False "1.prems" by (subst ilog2.simps) simp
      show ?thesis
        unfolding e using ih by (simp add: power_int_add power_int_diff)
    next
      case False
      with \<open>\<not> 2 \<le> x\<close> "1.prems" have e: "ilog2 x = 0"
        by (subst ilog2.simps) simp
      show ?thesis
        unfolding e using False \<open>\<not> 2 \<le> x\<close> by simp
    qed
  qed
qed


lemma two_powi_less_iff: "(2::real) powi a < 2 powi b \<longleftrightarrow> a < b"
proof
  assume l: "(2::real) powi a < 2 powi b"
  show "a < b"
  proof (rule ccontr)
    assume "\<not> a < b"
    then have "(2::real) powi b \<le> 2 powi a" by (intro power_int_increasing) simp_all
    with l show False by simp
  qed
next
  assume "a < b"
  then show "(2::real) powi a < 2 powi b" by (intro power_int_strict_increasing) simp_all
qed

lemma two_powi_le_iff: "(2::real) powi a \<le> 2 powi b \<longleftrightarrow> a \<le> b"
  using two_powi_less_iff [of b a] by (simp add: not_less [symmetric] del: not_less)

lemma ilog2_unique:
  assumes "0 < x" "2 powi k \<le> x" "x < 2 powi (k + 1)"
  shows "ilog2 x = k"
proof -
  from ilog2_bounds [OF assms(1)]
  have b: "2 powi ilog2 x \<le> x" "x < 2 powi (ilog2 x + 1)" by simp_all
  from b(1) assms(3) have "(2::real) powi ilog2 x < 2 powi (k + 1)" by simp
  then have "ilog2 x < k + 1" by (simp only: two_powi_less_iff)
  moreover from assms(2) b(2) have "(2::real) powi k < 2 powi (ilog2 x + 1)" by simp
  then have "k < ilog2 x + 1" by (simp only: two_powi_less_iff)
  ultimately show ?thesis by simp
qed

lemma ilog2_mono:
  assumes "0 < x" "x \<le> y"
  shows "ilog2 x \<le> ilog2 y"
proof -
  from assms have "0 < y" by simp
  from ilog2_bounds [OF assms(1)] ilog2_bounds [OF this] assms(2)
  have "(2::real) powi ilog2 x < 2 powi (ilog2 y + 1)" by simp
  then have "ilog2 x < ilog2 y + 1" by (simp only: two_powi_less_iff)
  then show ?thesis by simp
qed

subsection \<open>Rounding to an integer\<close>

lemma round_half_even_of_int [simp]: "round_half_even (of_int n) = n"
  by (simp add: round_half_even_def)

lemma round_half_even_0 [simp]: "round_half_even 0 = 0"
  by (simp add: round_half_even_def)

lemma round_half_even_range:
  "\<lfloor>x\<rfloor> \<le> round_half_even x \<and> round_half_even x \<le> \<lfloor>x\<rfloor> + 1"
  by (simp add: round_half_even_def Let_def)

lemma round_half_even_mono:
  assumes "x \<le> y"
  shows "round_half_even x \<le> round_half_even y"
proof (cases "\<lfloor>x\<rfloor> < \<lfloor>y\<rfloor>")
  case True
  with round_half_even_range [of x] round_half_even_range [of y] show ?thesis by linarith
next
  case False
  with assms have eq: "\<lfloor>x\<rfloor> = \<lfloor>y\<rfloor>" using floor_mono [of x y] by linarith
  from assms have "x - of_int \<lfloor>y\<rfloor> \<le> y - of_int \<lfloor>y\<rfloor>" by simp
  then show ?thesis
    unfolding round_half_even_def Let_def eq
    by (auto split: if_splits)
qed

lemma round_half_even_ge: "of_int n \<le> x \<Longrightarrow> n \<le> round_half_even x"
  using round_half_even_mono [of "of_int n" x] by simp

lemma round_half_even_le: "x \<le> of_int n \<Longrightarrow> round_half_even x \<le> n"
  using round_half_even_mono [of x "of_int n"] by simp

lemma round_half_even_minus: "round_half_even (- x) = - round_half_even x"
proof (cases "x = of_int \<lfloor>x\<rfloor>")
  case True
  then obtain n where "x = of_int n" ..
  then have "- x = of_int (- n)" by simp
  then show ?thesis unfolding \<open>x = of_int n\<close> by (simp only: round_half_even_of_int)
next
  case False
  then have f: "\<lfloor>- x\<rfloor> = - \<lfloor>x\<rfloor> - 1"
    by (simp add: floor_minus ceiling_altdef)
  have "even (- \<lfloor>x\<rfloor> - 1) \<longleftrightarrow> odd \<lfloor>x\<rfloor>" by simp
  then show ?thesis
    unfolding round_half_even_def Let_def f
    by (auto split: if_splits)
qed

subsection \<open>Rounding to a double\<close>

lemma ulp_pos: "0 < ulp x"
  by (simp add: ulp_def)

lemma ulp_minus: "ulp (- x) = ulp x"
  by (simp add: ulp_def exponent_def)

lemma nearest_0: "nearest 0 = 0"
  by (simp add: nearest_def)

lemma nearest_minus: "nearest (- x) = - nearest x"
  by (simp add: nearest_def ulp_minus round_half_even_minus)

lemma nearest_nonneg: "0 \<le> x \<Longrightarrow> 0 \<le> nearest x"
proof -
  assume "0 \<le> x"
  then have "of_int 0 \<le> x / ulp x" using ulp_pos [of x] by simp
  then have "0 \<le> round_half_even (x / ulp x)" by (rule round_half_even_ge)
  then show ?thesis using ulp_pos [of x] by (simp add: nearest_def)
qed


lemma ulp_scale:
  "2 ^ 53 * ulp x = 2 powi (exponent x + 1)" "2 ^ 52 * ulp x = 2 powi exponent x"
proof -
  have a: "exponent x - 52 + 53 = exponent x + 1" "exponent x - 52 + 52 = exponent x"
    by simp_all
  have "(2::real) powi (exponent x - 52 + 53) = 2 powi (exponent x - 52) * 2 powi 53"
    by (rule power_int_add) simp
  then have "(2::real) powi (exponent x + 1) = 2 powi (exponent x - 52) * 2 ^ 53"
    by (simp only: a power_int_numeral)
  then show "2 ^ 53 * ulp x = 2 powi (exponent x + 1)"
    by (simp only: ulp_def mult.commute)
  have "(2::real) powi (exponent x - 52 + 52) = 2 powi (exponent x - 52) * 2 powi 52"
    by (rule power_int_add) simp
  then have "(2::real) powi exponent x = 2 powi (exponent x - 52) * 2 ^ 52"
    by (simp only: a power_int_numeral)
  then show "2 ^ 52 * ulp x = 2 powi exponent x"
    by (simp only: ulp_def mult.commute)
qed

lemma below_next_binade:
  assumes "0 < x"
  shows "x < 2 powi (exponent x + 1)"
proof -
  from ilog2_bounds [OF assms] have "x < 2 powi (ilog2 x + 1)" by simp
  also have "\<dots> \<le> 2 powi (exponent x + 1)"
    using assms by (simp add: two_powi_le_iff exponent_def)
  finally show ?thesis .
qed

lemma nearest_upper:
  assumes "0 < x"
  shows "nearest x \<le> 2 powi (exponent x + 1)"
proof -
  from below_next_binade [OF assms] have "x < 2 ^ 53 * ulp x"
    by (simp only: ulp_scale)
  then have "x / ulp x \<le> of_int (2 ^ 53)"
    using ulp_pos [of x] by (simp add: field_simps)
  then have "round_half_even (x / ulp x) \<le> 2 ^ 53"
    by (rule round_half_even_le)
  then have "real_of_int (round_half_even (x / ulp x)) \<le> 2 ^ 53"
    by (metis of_int_le_iff of_int_numeral of_int_power)
  then have "nearest x \<le> 2 ^ 53 * ulp x"
    unfolding nearest_def using ulp_pos [of x] by (simp add: mult_right_mono)
  then show ?thesis
    by (simp only: ulp_scale)
qed

lemma nearest_lower:
  assumes "0 < x" "2 powi exponent x \<le> x"
  shows "2 powi exponent x \<le> nearest x"
proof -
  from assms(2) have "2 ^ 52 * ulp x \<le> x"
    by (simp only: ulp_scale)
  then have "of_int (2 ^ 52) \<le> x / ulp x"
    using ulp_pos [of x] by (simp add: field_simps)
  then have "2 ^ 52 \<le> round_half_even (x / ulp x)"
    by (rule round_half_even_ge)
  then have "2 ^ 52 \<le> real_of_int (round_half_even (x / ulp x))"
    by (metis of_int_le_iff of_int_numeral of_int_power)
  then have "2 ^ 52 * ulp x \<le> nearest x"
    unfolding nearest_def using ulp_pos [of x] by (simp add: mult_right_mono)
  then show ?thesis
    by (simp only: ulp_scale)
qed

lemma normal_lower:
  assumes "0 < x" "- 1022 < exponent x"
  shows "2 powi exponent x \<le> x"
proof -
  from assms(2) have "exponent x = ilog2 x"
    using assms(1) by (simp add: exponent_def max_def split: if_splits)
  with ilog2_bounds [OF assms(1)] show ?thesis by simp
qed

lemma exponent_mono:
  assumes "0 < x" "x \<le> y"
  shows "exponent x \<le> exponent y"
  using ilog2_mono [OF assms] assms by (simp add: exponent_def max_def)

lemma nearest_mono_pos:
  assumes "0 < x" "x \<le> y"
  shows "nearest x \<le> nearest y"
proof (cases "exponent x = exponent y")
  case True
  then have u: "ulp x = ulp y" by (simp add: ulp_def)
  from assms(2) have "x / ulp y \<le> y / ulp y"
    using ulp_pos [of y] by (simp add: divide_right_mono)
  then have "round_half_even (x / ulp y) \<le> round_half_even (y / ulp y)"
    by (rule round_half_even_mono)
  then show ?thesis
    unfolding nearest_def u using ulp_pos [of y] by (simp add: mult_right_mono)
next
  case False
  with exponent_mono [OF assms] have lt: "exponent x < exponent y" by simp
  from assms have y: "0 < y" by simp
  have "- 1022 \<le> exponent x" by (simp add: exponent_def)
  with lt have "- 1022 < exponent y" by simp
  from normal_lower [OF y this] have "2 powi exponent y \<le> nearest y"
    by (rule nearest_lower [OF y])
  moreover have "nearest x \<le> 2 powi (exponent x + 1)"
    by (rule nearest_upper [OF assms(1)])
  moreover have "(2::real) powi (exponent x + 1) \<le> 2 powi exponent y"
    using lt by (simp add: two_powi_le_iff)
  ultimately show ?thesis by linarith
qed

lemma nearest_nonpos: "x \<le> 0 \<Longrightarrow> nearest x \<le> 0"
  using nearest_nonneg [of "- x"] by (simp add: nearest_minus)

lemma nearest_mono:
  assumes "x \<le> y"
  shows "nearest x \<le> nearest y"
proof -
  consider "0 < x" | "x \<le> 0" "0 \<le> y" | "y < 0" by linarith
  then show ?thesis
  proof cases
    case 1
    then show ?thesis using assms by (rule nearest_mono_pos)
  next
    case 2
    with nearest_nonpos [of x] nearest_nonneg [of y] show ?thesis by linarith
  next
    case 3
    with assms have "0 < - y" "- y \<le> - x" by simp_all
    then have "nearest (- y) \<le> nearest (- x)" by (rule nearest_mono_pos)
    then show ?thesis by (simp add: nearest_minus)
  qed
qed

lemma nearest_idem_pos:
  assumes "0 < x"
  shows "nearest (nearest x) = nearest x"
proof -
  define m where "m = round_half_even (x / ulp x)"
  define e where "e = exponent x"
  have v: "nearest x = of_int m * ulp x" by (simp add: nearest_def m_def)
  have u: "ulp x = 2 powi (e - 52)" by (simp add: ulp_def e_def)
  have m0: "0 \<le> m"
    unfolding m_def using assms ulp_pos [of x] by (intro round_half_even_ge) simp
  have e_low: "- 1022 \<le> e" by (simp add: e_def exponent_def)
  have up: "of_int m * ulp x \<le> 2 powi (e + 1)"
    using nearest_upper [OF assms] by (simp add: v e_def)
  show ?thesis
  proof (cases "m = 0")
    case True
    then show ?thesis by (simp add: v nearest_0)
  next
    case False
    with m0 have mpos: "0 < m" by simp
    then have vpos: "0 < real_of_int m * ulp x" using ulp_pos [of x] by simp
    consider (top) "real_of_int m * ulp x = 2 powi (e + 1)"
      | (normal) "2 powi e \<le> real_of_int m * ulp x" "real_of_int m * ulp x < 2 powi (e + 1)"
      | (sub) "real_of_int m * ulp x < 2 powi e"
      using up by linarith
    then have "nearest (of_int m * ulp x) = of_int m * ulp x"
    proof cases
      case top
      have il: "ilog2 (2 powi (e + 1)) = e + 1"
        by (rule ilog2_unique) (simp_all add: two_powi_less_iff)
      have ex: "exponent (2 powi (e + 1)) = e + 1"
        using e_low by (simp add: exponent_def il)
      have ul: "ulp (2 powi (e + 1)) = 2 powi (e + 1 - 52)"
        by (simp add: ulp_def ex)
      have "(2::real) powi (e + 1 - 52 + 52) = 2 powi (e + 1 - 52) * 2 powi 52"
        by (rule power_int_add) simp
      then have q: "2 powi (e + 1) / 2 powi (e + 1 - 52) = real_of_int (2 ^ 52)"
        by (simp add: field_simps)
      have "nearest (2 powi (e + 1)) = real_of_int (2 ^ 52) * 2 powi (e + 1 - 52)"
        unfolding nearest_def ul q by (simp only: round_half_even_of_int)
      also have "\<dots> = 2 powi (e + 1)"
        using q by (simp add: field_simps)
      finally show ?thesis by (simp only: top)
    next
      case normal
      have "ilog2 (real_of_int m * ulp x) = e"
        using vpos normal by (rule ilog2_unique)
      then have "exponent (real_of_int m * ulp x) = e"
        using e_low vpos by (simp add: exponent_def)
      then have ul: "ulp (real_of_int m * ulp x) = ulp x"
        by (simp add: ulp_def e_def)
      show ?thesis
        unfolding nearest_def [of "real_of_int m * ulp x"] ul
        using ulp_pos [of x] by simp
    next
      case sub
      have small: "m < 2 ^ 52"
      proof (rule ccontr)
        assume "\<not> m < 2 ^ 52"
        then have "2 ^ 52 \<le> real_of_int m"
          by (metis not_less of_int_le_iff of_int_numeral of_int_power)
        then have "2 ^ 52 * ulp x \<le> real_of_int m * ulp x"
          using ulp_pos [of x] by (simp add: mult_right_mono)
        then have "2 powi exponent x \<le> real_of_int m * ulp x"
          by (simp only: ulp_scale)
        with sub show False by (simp add: e_def)
      qed
      have e_eq: "e = - 1022"
      proof (rule ccontr)
        assume "e \<noteq> - 1022"
        with e_low have "- 1022 < exponent x" by (simp add: e_def)
        from normal_lower [OF assms this] have "2 powi exponent x \<le> nearest x"
          by (rule nearest_lower [OF assms])
        with sub show False by (simp add: v e_def)
      qed
      from ilog2_bounds [OF vpos] sub
      have "(2::real) powi ilog2 (real_of_int m * ulp x) < 2 powi e" by simp
      then have "ilog2 (real_of_int m * ulp x) < e" by (simp only: two_powi_less_iff)
      then have "exponent (real_of_int m * ulp x) = e"
        using vpos by (simp add: exponent_def e_eq)
      then have ul: "ulp (real_of_int m * ulp x) = ulp x"
        by (simp add: ulp_def e_def)
      show ?thesis
        unfolding nearest_def [of "real_of_int m * ulp x"] ul
        using ulp_pos [of x] by simp
    qed
    then show ?thesis by (simp only: v)
  qed
qed

lemma nearest_idem: "nearest (nearest x) = nearest x"
proof -
  consider "0 < x" | "x = 0" | "x < 0" by linarith
  then show ?thesis
  proof cases
    case 1
    then show ?thesis by (rule nearest_idem_pos)
  next
    case 2
    then show ?thesis by (simp add: nearest_0)
  next
    case 3
    then have "nearest (nearest (- x)) = nearest (- x)" by (intro nearest_idem_pos) simp
    then show ?thesis by (simp add: nearest_minus)
  qed
qed

subsection \<open>Order and sign of numbers\<close>

lemma le_number_zero:
  "le_number (Finite 0) s \<longleftrightarrow> s = PosInf \<or> (\<exists>a. s = Finite a \<and> 0 \<le> a)"
  by (cases s) (auto simp: le_number_def)

lemma not_negative_iff:
  "\<not> less_number s (Finite 0) \<longleftrightarrow> s = NaN \<or> s = PosInf \<or> (\<exists>a. s = Finite a \<and> 0 \<le> a)"
  by (cases s) auto

lemma le_zero_not_negative: "le_number (Finite 0) s \<Longrightarrow> \<not> less_number s (Finite 0)"
  by (auto simp: le_number_zero)

lemma to_double_nonneg:
  assumes "0 \<le> x"
  shows "le_number (Finite 0) (to_double x)"
proof -
  have "0 \<le> nearest x"
    using assms by (rule nearest_nonneg)
  moreover have "(0::real) < 2 powi 1024"
    by simp
  ultimately show ?thesis
    by (auto simp: to_double_def le_number_def)
qed

lemma to_double_Finite:
  assumes "to_double x = Finite a"
  shows "a = nearest x" and "- (2 powi 1024) < a" and "a < 2 powi 1024"
    and "nearest a = a" and "to_double a = Finite a"
proof -
  from assms show a: "a = nearest x" and l: "- (2 powi 1024) < a" and u: "a < 2 powi 1024"
    by (auto simp: to_double_def split: if_splits)
  show n: "nearest a = a"
    unfolding a by (rule nearest_idem)
  from l u show "to_double a = Finite a"
    by (simp add: to_double_def n)
qed

lemma to_double_mono:
  assumes "x \<le> y"
  shows "le_number (to_double x) (to_double y)"
proof -
  have "nearest x \<le> nearest y"
    using assms by (rule nearest_mono)
  then show ?thesis
    by (auto simp: to_double_def le_number_def)
qed

lemma plus_zero: "to_double x = Finite a \<Longrightarrow> plus_number (Finite 0) (Finite a) = Finite a"
  by (simp add: to_double_Finite(5))

lemma plus_number_rounded:
  "plus_number a b = NaN \<or> plus_number a b = PosInf \<or> plus_number a b = NegInf
   \<or> (\<exists>x. plus_number a b = to_double x)"
  by (cases a; cases b) auto

lemma plus_increases:
  assumes "to_double x = Finite a" and "0 \<le> b"
  shows "le_number (Finite a) (to_double (a + b))"
proof -
  have "nearest a \<le> nearest (a + b)"
    using assms(2) by (intro nearest_mono) simp
  then have "a \<le> nearest (a + b)"
    by (simp add: to_double_Finite(4) [OF assms(1)])
  with to_double_Finite(2) [OF assms(1)] show ?thesis
    by (auto simp: to_double_def le_number_def)
qed

lemma le_number_Finite: "le_number (Finite a) (Finite b) \<longleftrightarrow> a \<le> b"
  by (auto simp: le_number_def)

lemma min_floor:
  "min_number (Finite 100) (floor_number (Finite a)) = Finite (of_int (min 100 \<lfloor>a\<rfloor>))"
  by (simp add: min_number_def min_def)

lemma level_mono:
  assumes "le_number s t"
  shows "le_number (min_number (Finite 100) (floor_number s))
           (min_number (Finite 100) (floor_number t))"
proof (cases s)
  case (Finite a)
  note s = this
  show ?thesis
  proof (cases t)
    case (Finite b)
    with s assms have "a \<le> b"
      by (simp add: le_number_Finite)
    then have "min 100 \<lfloor>a\<rfloor> \<le> min 100 \<lfloor>b\<rfloor>"
      using floor_mono [of a b] by simp
    then show ?thesis
      unfolding s Finite min_floor le_number_Finite by simp
  next
    case PosInf
    have "min 100 \<lfloor>a\<rfloor> \<le> 100"
      by simp
    then have "le_number (Finite (of_int (min 100 \<lfloor>a\<rfloor>))) (Finite 100)"
      unfolding le_number_Finite by simp
    then show ?thesis
      unfolding s PosInf min_floor by (simp add: min_number_def)
  qed (use s assms in \<open>simp_all add: le_number_def\<close>)
next
  case NegInf
  with assms show ?thesis
    by (cases t) (simp_all add: le_number_def min_number_def)
next
  case PosInf
  with assms show ?thesis
    by (cases t) (simp_all add: le_number_def min_number_def)
next
  case NaN
  with assms show ?thesis
    by (simp add: le_number_def)
qed

lemma level_range:
  assumes "le_number (Finite 0) s"
  shows "le_number (Finite 0) (min_number (Finite 100) (floor_number s))"
    and "le_number (min_number (Finite 100) (floor_number s)) (Finite 100)"
proof -
  from assms consider "s = PosInf" | a where "s = Finite a" "0 \<le> a"
    by (auto simp: le_number_zero)
  then have "le_number (Finite 0) (min_number (Finite 100) (floor_number s))
             \<and> le_number (min_number (Finite 100) (floor_number s)) (Finite 100)"
  proof cases
    case 1
    then show ?thesis
      by (simp add: le_number_def min_number_def)
  next
    case 2
    then have "0 \<le> min 100 \<lfloor>a\<rfloor>" "min 100 \<lfloor>a\<rfloor> \<le> 100"
      by simp_all
    then show ?thesis
      unfolding 2(1) min_floor le_number_Finite by simp
  qed
  then show "le_number (Finite 0) (min_number (Finite 100) (floor_number s))"
    and "le_number (min_number (Finite 100) (floor_number s)) (Finite 100)"
    by simp_all
qed

lemma level_cap:
  "min_number (Finite 100) x = NaN \<or> le_number (min_number (Finite 100) x) (Finite 100)"
  by (cases x) (auto simp: le_number_def min_number_def)

lemma clamp_floor:
  assumes "\<not> less_number s (Finite 0)"
  shows "min_number (Finite 100) (floor_number s)
         = floor_number (clamp_number (Finite 0) (Finite 100) s)"
proof -
  from assms consider "s = NaN" | "s = PosInf" | a where "s = Finite a" "0 \<le> a"
    by (auto simp: not_negative_iff)
  then show ?thesis
  proof cases
    case 3
    then show ?thesis
      by (simp add: clamp_number_def min_number_def max_number_def floor_less_iff)
  qed (simp_all add: clamp_number_def min_number_def max_number_def)
qed

section \<open>Properties of the verification level\<close>

lemma score_loop_foldl:
  "score_loop s ms
   = foldl plus_number s (map contribution (filter (\<lambda>m. status m = verified) ms))"
  by (induction ms arbitrary: s) simp_all

lemma score_loop_append:
  "score_loop s (ms @ [m])
   = (if status m = verified then plus_number (score_loop s ms) (contribution m)
      else score_loop s ms)"
  by (simp add: score_loop_foldl)

lemma filter_contributes: "filter contributes ms = filter (\<lambda>m. status m = verified) ms"
  by (rule filter_cong) (auto simp: contributes_def)

lemma contribution_expiresAt: "contribution (m\<lparr>expiresAt := e\<rparr>) = contribution m"
  by (simp add: contribution_def split: option.split)

lemma score_loop_expiresAt:
  "score_loop s (map (\<lambda>m. m\<lparr>expiresAt := e\<rparr>) ms) = score_loop s ms"
  by (induction ms arbitrary: s) (simp_all add: contribution_expiresAt)

lemma weights_positive: "map_of weights t = Some w \<Longrightarrow> \<exists>a. w = Finite a \<and> 0 < a"
  by (auto simp: weights_def split: if_splits)

lemma known_type_weight: "known_type m \<longleftrightarrow> (\<exists>w. map_of weights (type m) = Some w)"
  by (auto simp: known_type_def weights_def)

text \<open>A confidence that is not negative gives a contribution that is not negative.\<close>

lemma contribution_not_negative:
  assumes "\<not> less_number (confidence m) (Finite 0)"
  shows "\<not> less_number (contribution m) (Finite 0)"
proof (cases "map_of weights (type m)")
  case None
  then show ?thesis
    by (simp add: contribution_def)
next
  case (Some w)
  then obtain a where w: "w = Finite a" "0 < a"
    using weights_positive by blast
  from assms consider "confidence m = NaN" | "confidence m = PosInf"
    | c where "confidence m = Finite c" "0 \<le> c"
    by (auto simp: not_negative_iff)
  then show ?thesis
  proof cases
    case 3
    with w have "0 \<le> a * c"
      by simp
    then have "\<not> less_number (to_double (a * c)) (Finite 0)"
      by (intro le_zero_not_negative to_double_nonneg)
    with 3 w Some show ?thesis
      by (simp add: contribution_def)
  qed (use w Some in \<open>simp_all add: contribution_def\<close>)
qed

lemma contribution_nonneg:
  assumes "known_type m" and "le_number (Finite 0) (confidence m)"
  shows "le_number (Finite 0) (contribution m)"
proof -
  from assms(1) obtain w where "map_of weights (type m) = Some w"
    by (auto simp: known_type_weight)
  moreover from this obtain a where w: "w = Finite a" "0 < a"
    using weights_positive by blast
  moreover from assms(2) consider "confidence m = PosInf"
    | c where "confidence m = Finite c" "0 \<le> c"
    by (auto simp: le_number_zero)
  then have "le_number (Finite 0) (times_number (Finite a) (confidence m))"
  proof cases
    case 1
    with w show ?thesis
      by (simp add: le_number_def)
  next
    case 2
    with w have "0 \<le> a * c"
      by simp
    then have "le_number (Finite 0) (to_double (a * c))"
      by (rule to_double_nonneg)
    with 2 show ?thesis
      by simp
  qed
  ultimately show ?thesis
    by (simp add: contribution_def)
qed

lemma plus_not_negative:
  assumes "\<not> less_number s (Finite 0)" and "\<not> less_number c (Finite 0)"
  shows "\<not> less_number (plus_number s c) (Finite 0)"
proof -
  have "\<not> less_number (to_double (a + b)) (Finite 0)" if "0 \<le> a" "0 \<le> b" for a b
    using that by (intro le_zero_not_negative to_double_nonneg) simp
  with assms show ?thesis
    by (cases s; cases c) (simp_all add: not_less)
qed

lemma plus_nonneg:
  assumes "le_number (Finite 0) s" and "le_number (Finite 0) c"
  shows "le_number (Finite 0) (plus_number s c)"
proof -
  have "le_number (Finite 0) (to_double (a + b))" if "0 \<le> a" "0 \<le> b" for a b
    using that by (intro to_double_nonneg) simp
  moreover have "le_number (Finite 0) PosInf"
    by (simp add: le_number_def)
  ultimately show ?thesis
    using assms by (auto simp: le_number_zero [of s] le_number_zero [of c])
qed

lemma score_not_negative:
  assumes "\<not> less_number s (Finite 0)"
    and "\<forall>m\<in>set ms. status m = verified \<longrightarrow> \<not> less_number (confidence m) (Finite 0)"
  shows "\<not> less_number (score_loop s ms) (Finite 0)"
  using assms
proof (induction ms arbitrary: s)
  case Nil
  then show ?case by simp
next
  case (Cons m ms)
  show ?case
  proof (cases "status m = verified")
    case True
    with Cons.prems have "\<not> less_number (plus_number s (contribution m)) (Finite 0)"
      by (intro plus_not_negative contribution_not_negative) simp_all
    with Cons.prems(2) True show ?thesis
      by (simp add: Cons.IH)
  next
    case False
    with Cons.prems show ?thesis
      by (simp add: Cons.IH)
  qed
qed

lemma score_nonneg:
  assumes "le_number (Finite 0) s"
    and "\<forall>m\<in>set ms. status m = verified \<longrightarrow>
           known_type m \<and> le_number (Finite 0) (confidence m)"
  shows "le_number (Finite 0) (score_loop s ms)"
  using assms
proof (induction ms arbitrary: s)
  case Nil
  then show ?case by simp
next
  case (Cons m ms)
  show ?case
  proof (cases "status m = verified")
    case True
    with Cons.prems have "le_number (Finite 0) (plus_number s (contribution m))"
      by (intro plus_nonneg contribution_nonneg) simp_all
    with Cons.prems(2) True show ?thesis
      by (simp add: Cons.IH)
  next
    case False
    with Cons.prems show ?thesis
      by (simp add: Cons.IH)
  qed
qed

text \<open>The running score is always the outcome of a rounding, or the initial 0.\<close>

lemma score_rounded:
  assumes "s = NaN \<or> s = PosInf \<or> s = NegInf \<or> (\<exists>x. s = to_double x)"
  shows "score_loop s ms = NaN \<or> score_loop s ms = PosInf \<or> score_loop s ms = NegInf
         \<or> (\<exists>x. score_loop s ms = to_double x)"
  using assms
proof (induction ms arbitrary: s)
  case Nil
  then show ?case by simp
next
  case (Cons m ms)
  show ?case
  proof (cases "status m = verified")
    case True
    then have "score_loop s (m # ms) = score_loop (plus_number s (contribution m)) ms"
      by simp
    also note Cons.IH [OF plus_number_rounded [of s "contribution m"]]
    finally show ?thesis .
  next
    case False
    with Cons.IH [OF Cons.prems] show ?thesis
      by simp
  qed
qed

subsection \<open>Doubles of the examples\<close>

lemmas double_eval =
  to_double_def nearest_def ulp_def exponent_def ilog2.simps round_half_even_def

lemma double_0: "to_double 0 = Finite 0"
  by (simp add: to_double_def nearest_0)

lemma double_95: "to_double (95 / 100) = Finite (4278419646001971 / 4503599627370496)"
  by (simp add: double_eval)

lemma double_20_95: "to_double (20 * (4278419646001971 / 4503599627370496)) = Finite 19"
  by (simp add: double_eval)

lemma double_25: "to_double (25 * 1) = Finite 25"
  by (simp add: double_eval)

lemma double_19_25: "to_double (19 + 25) = Finite 44"
  by (simp add: double_eval)

lemma double_m20: "to_double (20 * - 1) = Finite (- 20)"
  by (simp add: double_eval)

lemma double_m10: "to_double (20 * - (1 / 2)) = Finite (- 10)"
  by (simp add: double_eval)

lemma double_19_m10: "to_double (19 + - 10) = Finite 9"
  by (simp add: double_eval)

lemma double_94: "to_double (94 / 100) = Finite (2116691824864133 / 2251799813685248)"
  by (simp add: double_eval)

lemma double_20_94:
  "to_double (20 * (2116691824864133 / 2251799813685248))
   = Finite (1322932390540083 / 70368744177664)"
  by (simp add: double_eval)

lemma double_82: "to_double (82 / 100) = Finite (7385903388887613 / 9007199254740992)"
  by (simp add: double_eval)

lemma double_10_82:
  "to_double (10 * (7385903388887613 / 9007199254740992))
   = Finite (2308094809027379 / 281474976710656)"
  by (simp add: double_eval)

lemma double_sum:
  "to_double (1322932390540083 / 70368744177664 + 2308094809027379 / 281474976710656)
   = Finite (7599824371187711 / 281474976710656)"
  by (simp add: double_eval)

subsection \<open>Levels of the examples\<close>

lemma score_step:
  "score_loop s (verified_method t c # ms)
   = score_loop (plus_number s (contribution (verified_method t c))) ms"
  by (simp add: verified_method_def)

lemma contribution_weight:
  "map_of weights t = Some (Finite w)
   \<Longrightarrow> contribution (verified_method t (Finite c)) = to_double (w * c)"
  by (simp add: contribution_def verified_method_def)

lemma weight_of:
  "map_of weights ''biometric'' = Some (Finite 20)"
  "map_of weights ''platform_verification'' = Some (Finite 25)"
  "map_of weights ''community_vouching'' = Some (Finite 10)"
  by (simp_all add: weights_def)

lemma method_A:
  "status scenario_A = verified" "known_type scenario_A"
  "confidence scenario_A = Finite (4278419646001971 / 4503599627370496)"
  unfolding scenario_A_def verified_method_def double_95
  by (simp_all add: known_type_def weights_def)

lemma contribution_A: "contribution scenario_A = Finite 19"
proof -
  have "contribution scenario_A
        = contribution (verified_method ''biometric'' (Finite (4278419646001971 / 4503599627370496)))"
    by (simp only: scenario_A_def double_95)
  also have "\<dots> = to_double (20 * (4278419646001971 / 4503599627370496))"
    by (rule contribution_weight [OF weight_of(1)])
  also have "\<dots> = Finite 19"
    by (rule double_20_95)
  finally show ?thesis .
qed

lemma score_A: "score_loop (Finite 0) [scenario_A] = Finite 19"
proof -
  have "score_loop (Finite 0) [scenario_A] = plus_number (Finite 0) (contribution scenario_A)"
    by (simp only: scenario_A_def score_step score_loop.simps(1))
  also have "\<dots> = Finite 19"
    by (simp only: contribution_A plus_zero [OF double_20_95])
  finally show ?thesis .
qed

lemma score_A_then:
  "score_loop (Finite 0) [scenario_A, verified_method t c]
   = plus_number (Finite 19) (contribution (verified_method t c))"
proof -
  have "score_loop (Finite 0) [scenario_A, verified_method t c]
        = plus_number (plus_number (Finite 0) (contribution scenario_A))
            (contribution (verified_method t c))"
    by (simp only: scenario_A_def score_step score_loop.simps(1))
  also have "\<dots> = plus_number (Finite 19) (contribution (verified_method t c))"
    by (simp only: contribution_A plus_zero [OF double_20_95])
  finally show ?thesis .
qed

lemma score_B: "score_loop (Finite 0) [scenario_A, platform_method] = Finite 44"
proof -
  have "score_loop (Finite 0) [scenario_A, platform_method]
        = plus_number (Finite 19) (to_double (25 * 1))"
    by (simp only: platform_method_def score_A_then contribution_weight [OF weight_of(2)])
  also have "\<dots> = to_double (19 + 25)"
    by (simp only: double_25 plus_number.simps)
  also have "\<dots> = Finite 44"
    by (rule double_19_25)
  finally show ?thesis .
qed

lemma score_half: "score_loop (Finite 0) [scenario_A, negative_half_biometric] = Finite 9"
proof -
  have "score_loop (Finite 0) [scenario_A, negative_half_biometric]
        = plus_number (Finite 19) (to_double (20 * - (1 / 2)))"
    by (simp only: negative_half_biometric_def score_A_then
        contribution_weight [OF weight_of(1)])
  also have "\<dots> = to_double (19 + - 10)"
    by (simp only: double_m10 plus_number.simps)
  also have "\<dots> = Finite 9"
    by (rule double_19_m10)
  finally show ?thesis .
qed

lemma score_negative: "score_loop (Finite 0) [negative_biometric] = Finite (- 20)"
proof -
  have "score_loop (Finite 0) [negative_biometric]
        = plus_number (Finite 0) (to_double (20 * - 1))"
    by (simp only: negative_biometric_def score_step score_loop.simps(1)
        contribution_weight [OF weight_of(1)])
  also have "\<dots> = Finite (- 20)"
    by (simp only: double_m20 plus_zero [OF double_m20])
  finally show ?thesis .
qed

lemma score_nan: "score_loop (Finite 0) [nan_method] = NaN"
  by (simp add: nan_method_def verified_method_def contribution_def weights_def)

lemma score_unknown: "score_loop (Finite 0) [unknown_type_method] = NaN"
  by (simp add: unknown_type_method_def verified_method_def contribution_def weights_def)

lemma level_A: "calculateVerificationLevel [scenario_A] = Finite 19"
  unfolding calculateVerificationLevel_def score_A by (simp add: min_number_def)

lemma level_B: "calculateVerificationLevel [scenario_A, platform_method] = Finite 44"
  unfolding calculateVerificationLevel_def score_B by (simp add: min_number_def)

lemma level_half:
  "calculateVerificationLevel [scenario_A, negative_half_biometric] = Finite 9"
  unfolding calculateVerificationLevel_def score_half by (simp add: min_number_def)

lemma level_negative: "calculateVerificationLevel [negative_biometric] = Finite (- 20)"
  unfolding calculateVerificationLevel_def score_negative by (simp add: min_number_def)

text \<open>
  Rounding is visible in the level: for a verified biometric method of confidence 0.94
  and a verified community vouching of confidence 0.82 the products are
  18.799999999999997 and 8.2, their sum is 26.999999999999996, and the level is 26,
  where the exact sum 27 would give 27.
\<close>

lemma level_rounding:
  "calculateVerificationLevel
     [verified_method ''biometric'' (to_double (94 / 100)),
      verified_method ''community_vouching'' (to_double (82 / 100))]
   = Finite 26"
proof -
  have "score_loop (Finite 0)
          [verified_method ''biometric'' (to_double (94 / 100)),
           verified_method ''community_vouching'' (to_double (82 / 100))]
        = plus_number
            (plus_number (Finite 0) (to_double (20 * (2116691824864133 / 2251799813685248))))
            (to_double (10 * (7385903388887613 / 9007199254740992)))"
    by (simp only: double_94 double_82 score_step score_loop.simps(1)
        contribution_weight [OF weight_of(1)] contribution_weight [OF weight_of(3)])
  also have "\<dots> = plus_number (Finite (1322932390540083 / 70368744177664))
                      (Finite (2308094809027379 / 281474976710656))"
    by (simp only: double_20_94 double_10_82 plus_zero [OF double_20_94])
  also have "\<dots> = to_double (1322932390540083 / 70368744177664
                               + 2308094809027379 / 281474976710656)"
    by (simp only: plus_number.simps)
  also have "\<dots> = Finite (7599824371187711 / 281474976710656)"
    by (rule double_sum)
  finally show ?thesis
    unfolding calculateVerificationLevel_def by (simp add: min_number_def)
qed

text \<open>
  Claim C1, as amended. For every list of methods the level is the sum, in double
  arithmetic from left to right, of weight times confidence over the methods whose
  status is verified, floored and capped at 100; there is no lower clamp, and the
  expiry date of a method has no influence. Whenever no verified method has a negative
  confidence this is the specification's rule (sum, clamp to 0..100, floor), and
  Scenario A (one verified biometric method of confidence 0.95) gives 19.
\<close>

theorem level_formula:
  "calculateVerificationLevel ms =
     min_number (Finite 100)
       (floor_number
          (foldl plus_number (Finite 0)
             (map contribution (filter (\<lambda>m. status m = verified) ms))))
   \<and> calculateVerificationLevel (map (\<lambda>m. m\<lparr>expiresAt := e\<rparr>) ms)
       = calculateVerificationLevel ms
   \<and> ((\<forall>m\<in>set ms. status m = verified \<longrightarrow> \<not> less_number (confidence m) (Finite 0)) \<longrightarrow>
        calculateVerificationLevel ms = spec_verification_level ms)
   \<and> calculateVerificationLevel [scenario_A] = Finite 19"
proof (intro conjI impI)
  show "calculateVerificationLevel (map (\<lambda>m. m\<lparr>expiresAt := e\<rparr>) ms)
       = calculateVerificationLevel ms"
    by (simp add: calculateVerificationLevel_def score_loop_expiresAt)
  show "calculateVerificationLevel ms =
     min_number (Finite 100)
       (floor_number
          (foldl plus_number (Finite 0)
             (map contribution (filter (\<lambda>m. status m = verified) ms))))"
    by (simp add: calculateVerificationLevel_def score_loop_foldl)
  show "calculateVerificationLevel [scenario_A] = Finite 19"
    by (rule level_A)
  assume "\<forall>m\<in>set ms. status m = verified \<longrightarrow> \<not> less_number (confidence m) (Finite 0)"
  then have "\<not> less_number (score_loop (Finite 0) ms) (Finite 0)"
    by (intro score_not_negative) simp_all
  then have "calculateVerificationLevel ms
             = floor_number (clamp_number (Finite 0) (Finite 100) (score_loop (Finite 0) ms))"
    unfolding calculateVerificationLevel_def by (rule clamp_floor)
  then show "calculateVerificationLevel ms = spec_verification_level ms"
    by (simp add: spec_verification_level_def filter_contributes score_loop_foldl)
qed

text \<open>The amended C1 at Scenario A: the code and the specification's rule both give 19.\<close>

theorem level_formula_witness:
  "status scenario_A = verified \<and> \<not> less_number (confidence scenario_A) (Finite 0)
   \<and> calculateVerificationLevel [scenario_A] = spec_verification_level [scenario_A]
   \<and> spec_verification_level [scenario_A] = Finite 19"
proof -
  have c: "status scenario_A = verified" "\<not> less_number (confidence scenario_A) (Finite 0)"
    by (simp_all add: method_A)
  then have h: "\<forall>m\<in>set [scenario_A].
      status m = verified \<longrightarrow> \<not> less_number (confidence m) (Finite 0)"
    by simp
  from level_formula [of "[scenario_A]"] h
  have "calculateVerificationLevel [scenario_A] = spec_verification_level [scenario_A]"
    and "calculateVerificationLevel [scenario_A] = Finite 19"
    by blast+
  with c show ?thesis by simp
qed

text \<open>
  C1 as stated fails: for one verified biometric method of confidence \<open>-1\<close> the code
  returns \<open>-20\<close>, where clamping to 0..100 gives 0.
\<close>

theorem level_formula_counterexample:
  "calculateVerificationLevel [negative_biometric] = Finite (- 20)
   \<and> spec_verification_level [negative_biometric] = Finite 0
   \<and> calculateVerificationLevel [negative_biometric]
       \<noteq> spec_verification_level [negative_biometric]"
proof -
  have "spec_verification_level [negative_biometric]
        = floor_number (clamp_number (Finite 0) (Finite 100)
            (score_loop (Finite 0) [negative_biometric]))"
    by (simp only: spec_verification_level_def filter_contributes score_loop_foldl)
  then have "spec_verification_level [negative_biometric] = Finite 0"
    unfolding score_negative by (simp add: clamp_number_def min_number_def max_number_def)
  then show ?thesis
    by (simp add: level_negative)
qed

text \<open>
  Claim C2, as amended. For every list of methods the level is \<^verbatim>\<open>NaN\<close> or at most
  100; it lies between 0 and 100 whenever every verified method has one of the five
  types and a confidence of at least 0 (which \<^verbatim>\<open>NaN\<close> is not). The confidence is used
  as it is, without clamping.
\<close>

theorem level_bounds:
  "(calculateVerificationLevel ms = NaN
      \<or> le_number (calculateVerificationLevel ms) (Finite 100))
   \<and> ((\<forall>m\<in>set ms. status m = verified \<longrightarrow>
          known_type m \<and> le_number (Finite 0) (confidence m)) \<longrightarrow>
        le_number (Finite 0) (calculateVerificationLevel ms)
        \<and> le_number (calculateVerificationLevel ms) (Finite 100))"
proof (intro conjI impI)
  show "calculateVerificationLevel ms = NaN
      \<or> le_number (calculateVerificationLevel ms) (Finite 100)"
    unfolding calculateVerificationLevel_def by (rule level_cap)
  assume "\<forall>m\<in>set ms. status m = verified \<longrightarrow>
          known_type m \<and> le_number (Finite 0) (confidence m)"
  then have s: "le_number (Finite 0) (score_loop (Finite 0) ms)"
    by (intro score_nonneg) (simp_all add: le_number_def)
  show "le_number (Finite 0) (calculateVerificationLevel ms)"
    unfolding calculateVerificationLevel_def using s by (rule level_range)
  show "le_number (calculateVerificationLevel ms) (Finite 100)"
    unfolding calculateVerificationLevel_def using s by (rule level_range)
qed

text \<open>The amended C2 at Scenario A extended by a verified platform method.\<close>

theorem level_bounds_witness:
  "known_type scenario_A \<and> le_number (Finite 0) (confidence scenario_A)
   \<and> known_type platform_method \<and> le_number (Finite 0) (confidence platform_method)
   \<and> le_number (Finite 0) (calculateVerificationLevel [scenario_A, platform_method])
   \<and> le_number (calculateVerificationLevel [scenario_A, platform_method]) (Finite 100)"
proof -
  have a: "known_type scenario_A" "le_number (Finite 0) (confidence scenario_A)"
    by (simp_all add: method_A le_number_def)
  have p: "known_type platform_method" "le_number (Finite 0) (confidence platform_method)"
    by (simp_all add: platform_method_def verified_method_def known_type_def weights_def
        le_number_def)
  note c = a p
  then have h: "\<forall>m\<in>set [scenario_A, platform_method]. status m = verified \<longrightarrow>
      known_type m \<and> le_number (Finite 0) (confidence m)"
    by simp
  with level_bounds [of "[scenario_A, platform_method]"] c show ?thesis
    by blast
qed

text \<open>
  C2 as stated fails: a confidence of \<open>-1\<close> is not clamped, and the level is \<open>-20\<close>,
  below 0; and a verified method whose confidence is \<^verbatim>\<open>NaN\<close> makes the level
  \<^verbatim>\<open>NaN\<close>, which is neither at least 0 nor at most 100.
\<close>

theorem level_bounds_counterexample:
  "calculateVerificationLevel [negative_biometric] = Finite (- 20)
   \<and> \<not> le_number (Finite 0) (calculateVerificationLevel [negative_biometric])
   \<and> calculateVerificationLevel [nan_method] = NaN
   \<and> \<not> le_number (calculateVerificationLevel [nan_method]) (Finite 100)"
proof -
  have "calculateVerificationLevel [nan_method] = NaN"
    unfolding calculateVerificationLevel_def score_nan by (simp add: min_number_def)
  then show ?thesis
    by (simp add: level_negative le_number_def)
qed

text \<open>
  The restriction on the existing methods is needed: a level that is \<^verbatim>\<open>NaN\<close> stays
  \<^verbatim>\<open>NaN\<close> when a well-formed verified method is appended, and \<^verbatim>\<open>NaN >= NaN\<close> is
  false.
\<close>

lemma level_nan_stays:
  "calculateVerificationLevel [nan_method] = NaN
   \<and> calculateVerificationLevel ([nan_method] @ [platform_method]) = NaN
   \<and> \<not> le_number (calculateVerificationLevel [nan_method])
          (calculateVerificationLevel ([nan_method] @ [platform_method]))"
proof -
  have a: "calculateVerificationLevel [nan_method] = NaN"
    unfolding calculateVerificationLevel_def score_nan by (simp add: min_number_def)
  have "score_loop (Finite 0) ([nan_method] @ [platform_method]) = NaN"
    unfolding score_loop_append score_nan
    by (simp add: platform_method_def verified_method_def)
  then have b: "calculateVerificationLevel ([nan_method] @ [platform_method]) = NaN"
    unfolding calculateVerificationLevel_def by (simp add: min_number_def)
  show ?thesis
    unfolding a b by (simp add: le_number_def)
qed

text \<open>
  Claim C3, as amended. When the level of a list of methods is a number above
  \<open>-\<infinity>\<close>, appending a method whose status is verified, whose type is one of the five
  and whose confidence is at least 0 never lowers the level.
\<close>

theorem level_monotone:
  assumes "status m = verified" and "known_type m" and "le_number (Finite 0) (confidence m)"
    and "calculateVerificationLevel ms \<noteq> NaN" and "calculateVerificationLevel ms \<noteq> NegInf"
  shows "le_number (calculateVerificationLevel ms) (calculateVerificationLevel (ms @ [m]))"
proof -
  let ?s = "score_loop (Finite 0) ms" and ?c = "contribution m"
  have c: "le_number (Finite 0) ?c"
    using assms(2,3) by (rule contribution_nonneg)
  have "Finite 0 = to_double 0"
    by (simp add: double_0)
  then have "?s = NaN \<or> ?s = PosInf \<or> ?s = NegInf \<or> (\<exists>x. ?s = to_double x)"
    by (intro score_rounded) blast
  moreover have "?s \<noteq> NaN" "?s \<noteq> NegInf"
    using assms(4,5) by (auto simp: calculateVerificationLevel_def min_number_def)
  ultimately consider "?s = PosInf" | a x where "?s = Finite a" "to_double x = Finite a"
    by (cases ?s) auto
  then have "le_number ?s (plus_number ?s ?c)"
  proof cases
    case 1
    from c show ?thesis
      unfolding 1 le_number_zero by (auto simp: le_number_def)
  next
    case 2
    from c consider "?c = PosInf" | b where "?c = Finite b" "0 \<le> b"
      by (auto simp: le_number_zero)
    then show ?thesis
    proof cases
      case 1
      then show ?thesis
        by (simp add: 2(1) le_number_def)
    next
      case b: 2
      from plus_increases [OF 2(2) b(2)] show ?thesis
        by (simp add: 2(1) b(1))
    qed
  qed
  then have "le_number (min_number (Finite 100) (floor_number ?s))
               (min_number (Finite 100) (floor_number (plus_number ?s ?c)))"
    by (rule level_mono)
  then show ?thesis
    by (simp add: calculateVerificationLevel_def score_loop_append assms(1))
qed

text \<open>The amended C3 at Scenario B: adding the platform method takes 19 to 44.\<close>

theorem level_monotone_witness:
  "status platform_method = verified \<and> known_type platform_method
   \<and> le_number (Finite 0) (confidence platform_method)
   \<and> calculateVerificationLevel [scenario_A] = Finite 19
   \<and> le_number (calculateVerificationLevel [scenario_A])
       (calculateVerificationLevel ([scenario_A] @ [platform_method]))
   \<and> calculateVerificationLevel ([scenario_A] @ [platform_method]) = Finite 44"
proof -
  have h: "status platform_method = verified" "known_type platform_method"
    "le_number (Finite 0) (confidence platform_method)"
    by (simp_all add: platform_method_def verified_method_def known_type_def weights_def
        le_number_def)
  have l: "calculateVerificationLevel [scenario_A] \<noteq> NaN"
    "calculateVerificationLevel [scenario_A] \<noteq> NegInf"
    by (simp_all add: level_A)
  from level_monotone [OF h l] h show ?thesis
    by (simp add: level_A level_B)
qed

text \<open>
  C3 as stated fails: a verified method of confidence \<open>-1/2\<close> takes the level of
  Scenario A from 19 down to 9.
\<close>

theorem level_monotone_counterexample:
  "status negative_half_biometric = verified
   \<and> calculateVerificationLevel [scenario_A] = Finite 19
   \<and> calculateVerificationLevel ([scenario_A] @ [negative_half_biometric]) = Finite 9
   \<and> \<not> le_number (calculateVerificationLevel [scenario_A])
          (calculateVerificationLevel ([scenario_A] @ [negative_half_biometric]))"
proof -
  have "status negative_half_biometric = verified"
    by (simp add: negative_half_biometric_def verified_method_def)
  then show ?thesis
    by (simp add: level_A level_half le_number_def)
qed

section \<open>Properties of identity creation and verification addition\<close>

lemma rethrow_Inr: "rethrow p r = Inr x \<longleftrightarrow> r = Inr x"
  by (cases r) (simp_all add: rethrow_def)

text \<open>
  \<^verbatim>\<open>connectPlatform\<close> always throws, so the loop over the initial platforms leaves the
  identity as it was.
\<close>

lemma connect_loop_id: "connect_loop platforms ident = ident"
  by (induction platforms) (simp_all add: connectPlatform_def)

text \<open>
  A confidence below 0.95 makes creation throw; what is created carries the verifier's
  confidence, which is then not below 0.95, and the level 10.
\<close>

lemma createIdentity_low:
  assumes "verifyBiometric env (biometricData request) = Inr c"
    and "less_number c (to_double (95 / 100))"
  shows "createIdentity env request
         = Inl (Error (''Failed to create identity: ''
                       @ ''Biometric verification failed - insufficient confidence''))"
  using assms by (simp add: createIdentity_def createIdentity_try_def rethrow_def)

lemma createIdentity_Inr:
  assumes "createIdentity env request = Inr response"
  shows "\<exists>c. verifyBiometric env (biometricData request) = Inr c
             \<and> \<not> less_number c (to_double (95 / 100))
             \<and> identity response
                 = initial_identity env request
                     (generateUniversalID env (biometricData request) (walletAddress request)) c"
  using assms
  by (auto simp: createIdentity_def rethrow_Inr createIdentity_try_def Let_def connect_loop_id
      split: sum.splits if_splits option.splits prod.splits)

lemma created_level:
  assumes "createIdentity env request = Inr response"
  shows "verificationLevel (identity response) = Finite 10"
  using createIdentity_Inr [OF assms] by (auto simp: initial_identity_def)

text \<open>
  No created identity stores the level its methods give: the stored level is 10, and
  one verified biometric method of confidence at least 0.95 gives at least 19 (and
  \<^verbatim>\<open>NaN\<close> gives \<^verbatim>\<open>NaN\<close>).
\<close>

lemma created_level_differs:
  assumes "createIdentity env request = Inr response"
  shows "verificationLevel (identity response)
         \<noteq> calculateVerificationLevel (verificationMethods (identity response))"
proof -
  from createIdentity_Inr [OF assms] obtain c where
    c: "\<not> less_number c (to_double (95 / 100))"
    and i: "identity response
            = initial_identity env request
                (generateUniversalID env (biometricData request) (walletAddress request)) c"
    by blast
  have l: "calculateVerificationLevel (verificationMethods (identity response))
           = min_number (Finite 100)
               (floor_number (plus_number (Finite 0) (times_number (Finite 20) c)))"
    by (simp add: i initial_identity_def calculateVerificationLevel_def contribution_def
        weights_def)
  have s: "verificationLevel (identity response) = Finite 10"
    using assms by (rule created_level)
  show ?thesis
  proof (cases c)
    case (Finite x)
    with c have "4278419646001971 / 4503599627370496 \<le> x"
      unfolding double_95 by simp
    then have "20 * (4278419646001971 / 4503599627370496) \<le> 20 * x"
      by simp
    then have "le_number (to_double (20 * (4278419646001971 / 4503599627370496)))
                 (to_double (20 * x))"
      by (rule to_double_mono)
    then have "le_number (Finite 19) (to_double (20 * x))"
      unfolding double_20_95 .
    then consider "to_double (20 * x) = PosInf" | y where "to_double (20 * x) = Finite y" "19 \<le> y"
      by (cases "to_double (20 * x)") (auto simp: le_number_def)
    then show ?thesis
    proof cases
      case 1
      then show ?thesis
        by (simp add: l s Finite min_number_def)
    next
      case 2
      then have "19 \<le> \<lfloor>y\<rfloor>"
        by (simp add: le_floor_iff)
      then have "min 100 \<lfloor>y\<rfloor> \<noteq> 10"
        by linarith
      then have "min_number (Finite 100) (floor_number (Finite y)) \<noteq> Finite 10"
        unfolding min_floor by simp
      then show ?thesis
        by (simp add: l s Finite 2(1) plus_zero [OF 2(1)] del: plus_number.simps)
    qed
  next
    case NegInf
    with c show ?thesis
      unfolding double_95 by simp
  qed (simp_all add: l s min_number_def)
qed

lemma example_created:
  "\<not> less_number c (to_double (95 / 100))
   \<Longrightarrow> createIdentity (example_env c) example_request
       = Inr \<lparr>identity = initial_identity (example_env c) example_request ''uci_1'' c,
              transactionHash = ''0xtx'',
              contractAddress = ''0xcontract'',
              qrCode = ''qr'',
              backupCodes = []\<rparr>"
  by (simp add: createIdentity_def createIdentity_try_def rethrow_def example_env_def
      example_request_def)

text \<open>
  Claim C10, at the input where the code departs from it. When the verifier reports
  the confidence \<^verbatim>\<open>NaN\<close>, which is not at least 0.95, the guard
  \<^verbatim>\<open>confidence < 0.95\<close> is false and the identity is created, its biometric method
  carrying the confidence \<^verbatim>\<open>NaN\<close>.
\<close>

theorem nan_confidence_creates:
  "verifyBiometric (example_env NaN) (biometricData example_request) = Inr NaN
   \<and> ge_number NaN (to_double (95 / 100)) = False
   \<and> createIdentity (example_env NaN) example_request = Inr nan_response
   \<and> map confidence (verificationMethods (identity nan_response)) = [NaN]"
proof (intro conjI)
  show "verifyBiometric (example_env NaN) (biometricData example_request) = Inr NaN"
    by (simp add: example_env_def)
  show "ge_number NaN (to_double (95 / 100)) = False"
    by (simp add: ge_number_def le_number_def)
  have "\<not> less_number NaN (to_double (95 / 100))"
    by simp
  then show "createIdentity (example_env NaN) example_request = Inr nan_response"
    unfolding nan_response_def nan_identity_def by (rule example_created)
  show "map confidence (verificationMethods (identity nan_response)) = [NaN]"
    by (simp add: nan_response_def nan_identity_def initial_identity_def)
qed

text \<open>
  The path that recomputes: once \<^verbatim>\<open>updateVerificationLevel\<close> holds an identity it
  stores, and returns, the level of the extended method list.
\<close>

lemma update_identity_recomputes:
  "outcome (update_identity env i ident m)
     = Inr (calculateVerificationLevel (verificationMethods ident @ [m]))
   \<and> map (\<lambda>stored. (verificationLevel stored, verificationMethods stored))
       (storeIdentityCalls (update_identity env i ident m))
     = [(calculateVerificationLevel (verificationMethods ident @ [m]),
         verificationMethods ident @ [m])]"
  by (simp add: update_identity_def Let_def)

lemma example_methods:
  "verificationMethods (identity example_response)
   = [(verified_method ''biometric'' (to_double (95 / 100)))\<lparr>verifiedAt := 1000\<rparr>]"
  unfolding example_response_def example_identity_def initial_identity_def
    verified_method_def example_env_def
  by simp

text \<open>
  Claim C5, at the input where the code departs from it. Creation with a biometric
  confidence of 0.95 and no initial platforms stores the level 10 next to a method
  list whose recomputed level is 19.
\<close>

theorem creation_level_divergence:
  "createIdentity (example_env (to_double (95 / 100))) example_request = Inr example_response
   \<and> verificationLevel (identity example_response) = Finite 10
   \<and> calculateVerificationLevel (verificationMethods (identity example_response)) = Finite 19
   \<and> verificationLevel (identity example_response)
       \<noteq> calculateVerificationLevel (verificationMethods (identity example_response))"
proof -
  have "\<not> less_number (to_double (95 / 100)) (to_double (95 / 100))"
    unfolding double_95 by simp
  then have c: "createIdentity (example_env (to_double (95 / 100))) example_request
                = Inr example_response"
    unfolding example_response_def example_identity_def by (rule example_created)
  have s: "verificationLevel (identity example_response) = Finite 10"
    using c by (rule created_level)
  have "score_loop (Finite 0) [scenario_A\<lparr>verifiedAt := 1000\<rparr>]
        = score_loop (Finite 0) [scenario_A]"
    by (simp add: contribution_def split: option.split)
  then have "calculateVerificationLevel (verificationMethods (identity example_response))
             = calculateVerificationLevel [scenario_A]"
    unfolding example_methods scenario_A_def [symmetric] calculateVerificationLevel_def
    by simp
  then have l: "calculateVerificationLevel (verificationMethods (identity example_response))
                = Finite 19"
    by (simp add: level_A)
  from c s l show ?thesis
    by simp
qed





section \<open>Properties of conflict detection and resolution\<close>

lemma foldl_later_in: "foldl later v vs \<in> set (v # vs)"
  by (induction vs arbitrary: v) (auto simp: later_def)

lemma foldl_later_ge_start: "timestamp v \<le> timestamp (foldl later v vs)"
proof (induction vs arbitrary: v)
  case Nil
  show ?case by simp
next
  case (Cons a vs)
  have "timestamp v \<le> timestamp (later v a)"
    by (simp add: later_def)
  also have "\<dots> \<le> timestamp (foldl later (later v a) vs)"
    by (rule Cons.IH)
  finally show ?case by simp
qed

lemma foldl_later_max: "u \<in> set (v # vs) \<Longrightarrow> timestamp u \<le> timestamp (foldl later v vs)"
proof (induction vs arbitrary: v)
  case Nil
  then show ?case by simp
next
  case (Cons a vs)
  have step: "timestamp v \<le> timestamp (later v a)" "timestamp a \<le> timestamp (later v a)"
    by (simp_all add: later_def)
  from Cons.prems consider "u = v" | "u = a" | "u \<in> set vs"
    by auto
  then show ?case
  proof cases
    case 1
    with step(1) foldl_later_ge_start [of "later v a" vs] show ?thesis by simp
  next
    case 2
    with step(2) foldl_later_ge_start [of "later v a" vs] show ?thesis by simp
  next
    case 3
    then have "u \<in> set (later v a # vs)" by simp
    from Cons.IH [OF this] show ?thesis by simp
  qed
qed

lemma reduce_latest_nonempty:
  assumes "vs \<noteq> []"
  obtains v where "reduce_latest vs = Inr v" "v \<in> set vs"
    "\<forall>u\<in>set vs. timestamp u \<le> timestamp v"
proof -
  from assms obtain a rest where vs: "vs = a # rest"
    by (cases vs) auto
  show ?thesis
  proof
    show "reduce_latest vs = Inr (foldl later a rest)"
      by (simp add: vs reduce_latest_def)
    show "foldl later a rest \<in> set vs"
      unfolding vs by (rule foldl_later_in)
    show "\<forall>u\<in>set vs. timestamp u \<le> timestamp (foldl later a rest)"
      unfolding vs using foldl_later_max by blast
  qed
qed

lemma follower_strategy:
  "map_of initializeStrategies ''follower_count_variance'' = Some LatestTimestampStrategy"
  by (simp add: initializeStrategies_def)

lemma bio_strategy:
  "map_of initializeStrategies ''bio_conflict'' = Some LongestValueStrategy"
  by (simp add: initializeStrategies_def)

lemma conflict_types:
  "conflictType (follower_conflict rs) = ''follower_count_variance''"
  "conflictType (bio_conflict rs) = ''bio_conflict''"
  by (simp_all add: follower_conflict_def bio_conflict_def)

lemma scenario_C_conflicts:
  "detectConflicts example_profile scenario_C = [follower_conflict scenario_C]"
  by (simp add: detectConflicts_def scenario_C_def reported_def followerCounts_def
      followerCount_or_0_def bioUpdates_def truthy_bio_def bio_change_def
      hasSignificantVariance_def mean_def variance_def power2_eq_square)

lemma scenario_D_conflicts:
  "detectConflicts example_profile scenario_D = [bio_conflict scenario_D]"
  by (simp add: detectConflicts_def scenario_D_def reported_def followerCounts_def
      followerCount_or_0_def bioUpdates_def truthy_bio_def bio_change_def bio_text_def
      hasSignificantVariance_def mean_def variance_def power2_eq_square
      hasDifferentValues_def normal_form_def is_space_def lower_char_def)

lemma single_reporter_conflicts:
  "detectConflicts example_profile single_reporter = [follower_conflict single_reporter]"
  by (simp add: detectConflicts_def single_reporter_def reported_def unreachable_def
      followerCounts_def followerCount_or_0_def bioUpdates_def truthy_bio_def bio_change_def
      bio_text_def hasSignificantVariance_def mean_def variance_def power2_eq_square)

lemma empty_bio_conflicts: "detectConflicts example_profile empty_bio_cycle = []"
  by (simp add: detectConflicts_def empty_bio_cycle_def reported_def followerCounts_def
      followerCount_or_0_def bioUpdates_def truthy_bio_def bio_change_def bio_text_def
      hasSignificantVariance_def mean_def variance_def power2_eq_square)

text \<open>
  Scenario D through the whole resolver: the bio conflict is detected, resolved by the
  strategy registered for its type, applied and recorded.
\<close>

lemma scenario_D_resolved:
  "resolve parts history example_profile scenario_D
   = Inr (applyResolution parts example_profile
            (longestValue parts (bio_conflict scenario_D) example_profile scenario_D),
          history @ [\<lparr>recordedConflict = bio_conflict scenario_D,
                      recordedResolution =
                        longestValue parts (bio_conflict scenario_D) example_profile scenario_D\<rparr>])"
  by (simp add: resolve_def scenario_D_conflicts conflict_types bio_strategy)

text \<open>
  With an \<^verbatim>\<open>applyResolution\<close> that writes a resolved string into the bio and a
  longest-value strategy that picks the longer bio, Scenario D replaces the stored
  bio by TikTok's.
\<close>

lemma scenario_D_applied:
  "map_sum id (\<lambda>st. bio (personalInfo (fst st)))
     (resolve example_parts [] example_profile scenario_D)
   = Inr ''Dancer and singer''"
proof -
  have v: "conflictValues (bio_conflict scenario_D)
           = [\<lparr>platform = ''tiktok'', count = None, candidateBio = Some ''Dancer and singer'',
               candidateValue = JUndefined, timestamp = 1\<rparr>,
              \<lparr>platform = ''instagram'', count = None, candidateBio = Some ''Painter'',
               candidateValue = JUndefined, timestamp = 2\<rparr>]"
    by (simp add: bio_conflict_def bioUpdates_def scenario_D_def reported_def truthy_bio_def
        bio_change_def)
  have "longestValue example_parts (bio_conflict scenario_D) example_profile scenario_D
        = \<lparr>resolvedValue = JStr ''Dancer and singer'', strategy = ''longest_value'',
           resolutionConfidence = to_double (8 / 10), reasoning = ''Used longest value''\<rparr>"
    by (simp add: example_parts_def v longer_def bio_text_def)
  then have "resolve example_parts [] example_profile scenario_D
        = Inr (applyResolution example_parts example_profile
                 \<lparr>resolvedValue = JStr ''Dancer and singer'', strategy = ''longest_value'',
                  resolutionConfidence = to_double (8 / 10), reasoning = ''Used longest value''\<rparr>,
               [] @ [\<lparr>recordedConflict = bio_conflict scenario_D,
                       recordedResolution =
                         \<lparr>resolvedValue = JStr ''Dancer and singer'',
                          strategy = ''longest_value'',
                          resolutionConfidence = to_double (8 / 10),
                          reasoning = ''Used longest value''\<rparr>\<rparr>])"
    by (simp only: scenario_D_resolved)
  then show ?thesis
    by (simp add: example_parts_def)
qed

text \<open>
  Claim C4, at the input where the code departs from it. The bio conflict of Scenario
  D has \<open>autoResolvable = False\<close>; the resolver nevertheless looks up the strategy
  registered for its type, the longest-value strategy, hands the resolution to
  \<^verbatim>\<open>applyResolution\<close> and records it, for every \<^verbatim>\<open>applyResolution\<close> and every
  longest-value strategy.
\<close>

theorem bio_conflict_is_resolved:
  "autoResolvable (bio_conflict scenario_D) = False
   \<and> map_of initializeStrategies (conflictType (bio_conflict scenario_D))
       = Some LongestValueStrategy
   \<and> resolve_loop parts example_profile scenario_D [bio_conflict scenario_D]
         (example_profile, history)
       = Inr (applyResolution parts example_profile
                (longestValue parts (bio_conflict scenario_D) example_profile scenario_D),
              history @ [\<lparr>recordedConflict = bio_conflict scenario_D,
                          recordedResolution =
                            longestValue parts (bio_conflict scenario_D) example_profile
                              scenario_D\<rparr>])"
proof -
  have "autoResolvable (bio_conflict scenario_D) = False"
    by (simp add: bio_conflict_def)
  then show ?thesis
    by (simp add: conflict_types bio_strategy)
qed

text \<open>
  What the latest-timestamp strategy makes of a follower conflict: the candidates are
  the sync results themselves, so the latest candidate is a sync result of greatest
  \<^verbatim>\<open>lastSync\<close>, and its count, when it is 0, gives way to the \<^verbatim>\<open>value\<close> field that a
  follower candidate does not have.
\<close>

lemma follower_values: "conflictValues (follower_conflict rs) = followerCounts rs"
  by (simp add: follower_conflict_def)

lemma follower_latest:
  assumes "rs \<noteq> []"
  obtains r where "r \<in> set rs" "\<forall>u\<in>set rs. lastSync u \<le> lastSync r"
    "latestTimestamp_resolve parts (follower_conflict rs)
     = Inr \<lparr>resolvedValue =
              (if followerCount_or_0 r = 0 then JUndefined
               else JNum (real (followerCount_or_0 r))),
            strategy = ''latest_timestamp'',
            resolutionConfidence = to_double (9 / 10),
            reasoning =
              ''Used latest value from '' @ resultPlatformId r @ '' (''
              @ dateToString parts (lastSync r) @ '')''\<rparr>"
proof -
  let ?f = "\<lambda>r. \<lparr>platform = resultPlatformId r, count = Some (followerCount_or_0 r),
                 candidateBio = None, candidateValue = JUndefined, timestamp = lastSync r\<rparr>"
  have fc: "followerCounts rs = map ?f rs"
    by (simp add: followerCounts_def)
  with assms have "followerCounts rs \<noteq> []"
    by simp
  then obtain v where v: "reduce_latest (followerCounts rs) = Inr v"
    "v \<in> set (followerCounts rs)" "\<forall>u\<in>set (followerCounts rs). timestamp u \<le> timestamp v"
    by (rule reduce_latest_nonempty)
  from v(2) obtain r where r: "r \<in> set rs" "v = ?f r"
    unfolding fc by auto
  show ?thesis
  proof
    show "r \<in> set rs"
      by (rule r(1))
    show "\<forall>u\<in>set rs. lastSync u \<le> lastSync r"
    proof
      fix u
      assume "u \<in> set rs"
      then have "?f u \<in> set (followerCounts rs)"
        unfolding fc by simp
      with v(3) have "timestamp (?f u) \<le> timestamp v"
        by blast
      then show "lastSync u \<le> lastSync r"
        by (simp add: r(2))
    qed
    show "latestTimestamp_resolve parts (follower_conflict rs)
     = Inr \<lparr>resolvedValue =
              (if followerCount_or_0 r = 0 then JUndefined
               else JNum (real (followerCount_or_0 r))),
            strategy = ''latest_timestamp'',
            resolutionConfidence = to_double (9 / 10),
            reasoning =
              ''Used latest value from '' @ resultPlatformId r @ '' (''
              @ dateToString parts (lastSync r) @ '')''\<rparr>"
      by (simp add: latestTimestamp_resolve_def follower_values v(1) r(2) count_or_value_def)
  qed
qed

text \<open>
  Claim C6, as amended. A follower-count-variance conflict raised over a non-empty
  list of sync results is resolved by the latest-timestamp strategy: the resolution
  follows a sync result whose \<^verbatim>\<open>lastSync\<close> is greatest, its value is that result's
  follower count, or \<^verbatim>\<open>undefined\<close> when that count is 0 or missing, it is tagged
  \<open>latest_timestamp\<close> with confidence 0.9 and a reasoning that names the platform and
  the date, and it is applied and recorded.
\<close>

theorem follower_variance_latest:
  assumes "rs \<noteq> []"
  shows "\<exists>r resolution. r \<in> set rs
           \<and> (\<forall>u\<in>set rs. lastSync u \<le> lastSync r)
           \<and> resolution
               = \<lparr>resolvedValue =
                    (if followerCount_or_0 r = 0 then JUndefined
                     else JNum (real (followerCount_or_0 r))),
                  strategy = ''latest_timestamp'',
                  resolutionConfidence = to_double (9 / 10),
                  reasoning =
                    ''Used latest value from '' @ resultPlatformId r @ '' (''
                    @ dateToString parts (lastSync r) @ '')''\<rparr>
           \<and> map_of initializeStrategies (conflictType (follower_conflict rs))
               = Some LatestTimestampStrategy
           \<and> resolve_loop parts prof syncResults [follower_conflict rs] (p, h)
               = Inr (applyResolution parts p resolution,
                      h @ [\<lparr>recordedConflict = follower_conflict rs,
                            recordedResolution = resolution\<rparr>])"
proof -
  from assms obtain r where r: "r \<in> set rs" "\<forall>u\<in>set rs. lastSync u \<le> lastSync r"
    "latestTimestamp_resolve parts (follower_conflict rs)
     = Inr \<lparr>resolvedValue =
              (if followerCount_or_0 r = 0 then JUndefined
               else JNum (real (followerCount_or_0 r))),
            strategy = ''latest_timestamp'',
            resolutionConfidence = to_double (9 / 10),
            reasoning =
              ''Used latest value from '' @ resultPlatformId r @ '' (''
              @ dateToString parts (lastSync r) @ '')''\<rparr>"
    by (rule follower_latest)
  let ?resolution = "\<lparr>resolvedValue =
              (if followerCount_or_0 r = 0 then JUndefined
               else JNum (real (followerCount_or_0 r))),
            strategy = ''latest_timestamp'',
            resolutionConfidence = to_double (9 / 10),
            reasoning =
              ''Used latest value from '' @ resultPlatformId r @ '' (''
              @ dateToString parts (lastSync r) @ '')''\<rparr>"
  have s: "map_of initializeStrategies (conflictType (follower_conflict rs))
           = Some LatestTimestampStrategy"
    by (simp add: conflict_types follower_strategy)
  have "resolve_loop parts prof syncResults [follower_conflict rs] (p, h)
        = Inr (applyResolution parts p ?resolution,
               h @ [\<lparr>recordedConflict = follower_conflict rs,
                     recordedResolution = ?resolution\<rparr>])"
    by (simp add: s r(3))
  with r(1,2) s show ?thesis
    by blast
qed

lemma scenario_C_values:
  "conflictValues (follower_conflict scenario_C)
   = [\<lparr>platform = ''tiktok'', count = Some 1000, candidateBio = None,
       candidateValue = JUndefined, timestamp = 1\<rparr>,
      \<lparr>platform = ''instagram'', count = Some 1400, candidateBio = None,
       candidateValue = JUndefined, timestamp = 2\<rparr>]"
  by (simp add: follower_conflict_def followerCounts_def scenario_C_def reported_def
      followerCount_or_0_def)

lemma scenario_C_latest:
  "latestTimestamp_resolve example_parts (follower_conflict scenario_C)
   = Inr \<lparr>resolvedValue = JNum 1400, strategy = ''latest_timestamp'',
          resolutionConfidence = to_double (9 / 10),
          reasoning = ''Used latest value from instagram (1970-01-01)''\<rparr>"
  by (simp add: latestTimestamp_resolve_def scenario_C_values reduce_latest_def later_def
      count_or_value_def example_parts_def)

lemma scenario_C_average:
  "spec_weighted_average (conflictValues (follower_conflict scenario_C)) = 1233"
  by (simp add: scenario_C_values spec_weighted_average_def candidate_weight_def
      candidate_number_def round_def floor_eq_iff)

lemma scenario_C_resolved:
  "resolve_loop example_parts example_profile scenario_C [follower_conflict scenario_C]
       (example_profile, [])
   = Inr (example_profile,
          [\<lparr>recordedConflict = follower_conflict scenario_C,
            recordedResolution =
              \<lparr>resolvedValue = JNum 1400, strategy = ''latest_timestamp'',
               resolutionConfidence = to_double (9 / 10),
               reasoning = ''Used latest value from instagram (1970-01-01)''\<rparr>\<rparr>])"
proof -
  have "applyResolution example_parts example_profile
          \<lparr>resolvedValue = JNum 1400, strategy = ''latest_timestamp'',
           resolutionConfidence = to_double (9 / 10),
           reasoning = ''Used latest value from instagram (1970-01-01)''\<rparr>
        = example_profile"
    by (simp add: example_parts_def)
  then show ?thesis
    by (simp add: conflict_types follower_strategy scenario_C_latest)
qed

text \<open>
  The amended C6 at Scenario C: the resolution follows one of the two sync results,
  none of which is later.
\<close>

theorem follower_variance_latest_witness:
  "scenario_C \<noteq> []
   \<and> (\<exists>r resolution. r \<in> set scenario_C
           \<and> (\<forall>u\<in>set scenario_C. lastSync u \<le> lastSync r)
           \<and> resolution
               = \<lparr>resolvedValue =
                    (if followerCount_or_0 r = 0 then JUndefined
                     else JNum (real (followerCount_or_0 r))),
                  strategy = ''latest_timestamp'',
                  resolutionConfidence = to_double (9 / 10),
                  reasoning =
                    ''Used latest value from '' @ resultPlatformId r @ '' (''
                    @ dateToString example_parts (lastSync r) @ '')''\<rparr>
           \<and> map_of initializeStrategies (conflictType (follower_conflict scenario_C))
               = Some LatestTimestampStrategy
           \<and> resolve_loop example_parts example_profile scenario_C
                 [follower_conflict scenario_C] (example_profile, [])
               = Inr (applyResolution example_parts example_profile resolution,
                      [] @ [\<lparr>recordedConflict = follower_conflict scenario_C,
                             recordedResolution = resolution\<rparr>]))"
proof -
  have n: "scenario_C \<noteq> []"
    by (simp add: scenario_C_def)
  from follower_variance_latest [OF n, of example_parts example_profile scenario_C
      example_profile "[]"] n
  show ?thesis
    by blast
qed

text \<open>
  C6 as stated fails: for the counts 1000 and 1400 of Scenario C the resolver records
  the later platform's 1400 under the strategy \<open>latest_timestamp\<close>, where the
  follower-weighted average is 1233.
\<close>

theorem follower_variance_counterexample:
  "map_of initializeStrategies (conflictType (follower_conflict scenario_C))
     = Some LatestTimestampStrategy
   \<and> resolve_loop example_parts example_profile scenario_C [follower_conflict scenario_C]
         (example_profile, [])
       = Inr (example_profile,
              [\<lparr>recordedConflict = follower_conflict scenario_C,
                recordedResolution =
                  \<lparr>resolvedValue = JNum 1400, strategy = ''latest_timestamp'',
                   resolutionConfidence = to_double (9 / 10),
                   reasoning = ''Used latest value from instagram (1970-01-01)''\<rparr>\<rparr>])
   \<and> spec_weighted_average (conflictValues (follower_conflict scenario_C)) = 1233
   \<and> JNum 1400
       \<noteq> JNum (real_of_int (spec_weighted_average (conflictValues (follower_conflict scenario_C))))"
proof (intro conjI)
  show "map_of initializeStrategies (conflictType (follower_conflict scenario_C))
     = Some LatestTimestampStrategy"
    by (simp add: conflict_types follower_strategy)
  show "resolve_loop example_parts example_profile scenario_C [follower_conflict scenario_C]
         (example_profile, [])
       = Inr (example_profile,
              [\<lparr>recordedConflict = follower_conflict scenario_C,
                recordedResolution =
                  \<lparr>resolvedValue = JNum 1400, strategy = ''latest_timestamp'',
                   resolutionConfidence = to_double (9 / 10),
                   reasoning = ''Used latest value from instagram (1970-01-01)''\<rparr>\<rparr>])"
    by (rule scenario_C_resolved)
  show "spec_weighted_average (conflictValues (follower_conflict scenario_C)) = 1233"
    by (rule scenario_C_average)
  show "JNum 1400
       \<noteq> JNum (real_of_int (spec_weighted_average (conflictValues (follower_conflict scenario_C))))"
    by (simp add: scenario_C_average)
qed

lemma remdups_two: "1 < length (remdups ys) \<longleftrightarrow> (\<exists>a\<in>set ys. \<exists>b\<in>set ys. a \<noteq> b)"
proof -
  have "length (remdups ys) = card (set ys)"
    by (simp add: length_remdups_card_conv)
  moreover have "card (set ys) \<le> Suc 0 \<longleftrightarrow> (\<forall>a\<in>set ys. \<forall>b\<in>set ys. a = b)"
    by (rule card_le_Suc0_iff_eq) simp
  ultimately show ?thesis
    by auto
qed

lemma hasDifferentValues_iff:
  "hasDifferentValues vs \<longleftrightarrow> (\<exists>a\<in>set vs. \<exists>b\<in>set vs. normal_form a \<noteq> normal_form b)"
  unfolding hasDifferentValues_def remdups_two by auto

lemma different_needs_two:
  assumes "hasDifferentValues vs"
  shows "1 < length vs"
proof -
  from assms have "1 < length (remdups (map normal_form vs))"
    by (simp add: hasDifferentValues_def)
  also have "\<dots> \<le> length (map normal_form vs)"
    by (rule length_remdups_leq)
  finally show ?thesis by simp
qed

lemma bio_texts:
  "set (map bio_text (bioUpdates rs)) = {b. \<exists>r\<in>set rs. bio_change r = Some b \<and> b \<noteq> []}"
proof -
  have truthy: "truthy_bio r \<longleftrightarrow> (\<exists>b. bio_change r = Some b \<and> b \<noteq> [])" for r
    by (simp add: truthy_bio_def split: option.splits)
  have "map bio_text (bioUpdates rs) = map (\<lambda>r. the (bio_change r)) (filter truthy_bio rs)"
    by (auto simp: bioUpdates_def bio_text_def truthy split: option.splits)
  then have "set (map bio_text (bioUpdates rs))
             = (\<lambda>r. the (bio_change r)) ` {r \<in> set rs. truthy_bio r}"
    by simp
  also have "\<dots> = {b. \<exists>r\<in>set rs. bio_change r = Some b \<and> b \<noteq> []}"
    by (force simp: truthy)
  finally show ?thesis .
qed

lemma bio_condition:
  "(1 < length (bioUpdates rs) \<and> hasDifferentValues (map bio_text (bioUpdates rs)))
   \<longleftrightarrow> (\<exists>r1\<in>set rs. \<exists>r2\<in>set rs. \<exists>b1 b2.
          bio_change r1 = Some b1 \<and> b1 \<noteq> [] \<and> bio_change r2 = Some b2 \<and> b2 \<noteq> []
          \<and> normal_form b1 \<noteq> normal_form b2)"
proof -
  have "hasDifferentValues (map bio_text (bioUpdates rs)) \<Longrightarrow> 1 < length (bioUpdates rs)"
    using different_needs_two [of "map bio_text (bioUpdates rs)"] by simp
  then have "(1 < length (bioUpdates rs) \<and> hasDifferentValues (map bio_text (bioUpdates rs)))
     \<longleftrightarrow> hasDifferentValues (map bio_text (bioUpdates rs))"
    by blast
  also have "\<dots> \<longleftrightarrow> (\<exists>a\<in>set (map bio_text (bioUpdates rs)).
                        \<exists>b\<in>set (map bio_text (bioUpdates rs)). normal_form a \<noteq> normal_form b)"
    by (rule hasDifferentValues_iff)
  also have "\<dots> \<longleftrightarrow> (\<exists>r1\<in>set rs. \<exists>r2\<in>set rs. \<exists>b1 b2.
          bio_change r1 = Some b1 \<and> b1 \<noteq> [] \<and> bio_change r2 = Some b2 \<and> b2 \<noteq> []
          \<and> normal_form b1 \<noteq> normal_form b2)"
    unfolding bio_texts by blast
  finally show ?thesis .
qed

lemma no_variance_short:
  assumes "length xs \<le> 1"
  shows "\<not> hasSignificantVariance xs"
proof (cases xs)
  case Nil
  then show ?thesis
    by (simp add: hasSignificantVariance_def)
next
  case (Cons x rest)
  with assms have xs: "xs = [x]"
    by simp
  have "variance [x] = 0"
    by (simp add: variance_def mean_def)
  moreover have "0 \<le> (15 / 100)\<^sup>2 * (mean [x])\<^sup>2"
    by simp
  ultimately show ?thesis
    unfolding xs hasSignificantVariance_def by linarith
qed

text \<open>
  Claim C7, as amended. A bio conflict is raised exactly when two sync results carry
  non-empty bio changes that differ under the normalised comparison; every bio
  conflict raised is the high-severity, not auto-resolvable one; and a cycle with at
  most one sync result raises no conflict at all.
\<close>

theorem bio_conflict_detection:
  "((\<exists>c\<in>set (detectConflicts prof rs). conflictType c = ''bio_conflict'')
      \<longleftrightarrow> (\<exists>r1\<in>set rs. \<exists>r2\<in>set rs. \<exists>b1 b2.
             bio_change r1 = Some b1 \<and> b1 \<noteq> [] \<and> bio_change r2 = Some b2 \<and> b2 \<noteq> []
             \<and> normal_form b1 \<noteq> normal_form b2))
   \<and> (\<forall>c\<in>set (detectConflicts prof rs).
         conflictType c = ''bio_conflict'' \<longrightarrow>
         c = bio_conflict rs \<and> severity c = high \<and> \<not> autoResolvable c)
   \<and> (length rs \<le> 1 \<longrightarrow> detectConflicts prof rs = [])"
proof (intro conjI)
  have "(\<exists>c\<in>set (detectConflicts prof rs). conflictType c = ''bio_conflict'')
        \<longleftrightarrow> (1 < length (bioUpdates rs) \<and> hasDifferentValues (map bio_text (bioUpdates rs)))"
    by (auto simp: detectConflicts_def conflict_types)
  then show "(\<exists>c\<in>set (detectConflicts prof rs). conflictType c = ''bio_conflict'')
      \<longleftrightarrow> (\<exists>r1\<in>set rs. \<exists>r2\<in>set rs. \<exists>b1 b2.
             bio_change r1 = Some b1 \<and> b1 \<noteq> [] \<and> bio_change r2 = Some b2 \<and> b2 \<noteq> []
             \<and> normal_form b1 \<noteq> normal_form b2)"
    by (simp only: bio_condition)
  show "\<forall>c\<in>set (detectConflicts prof rs).
         conflictType c = ''bio_conflict'' \<longrightarrow>
         c = bio_conflict rs \<and> severity c = high \<and> \<not> autoResolvable c"
    by (auto simp: detectConflicts_def conflict_types split: if_splits)
       (simp_all add: bio_conflict_def)
  show "length rs \<le> 1 \<longrightarrow> detectConflicts prof rs = []"
  proof
    assume short: "length rs \<le> 1"
    then have "\<not> hasSignificantVariance
           (map (\<lambda>f. real (case count f of None \<Rightarrow> 0 | Some n \<Rightarrow> n)) (followerCounts rs))"
      by (intro no_variance_short) (simp add: followerCounts_def)
    moreover have "length (bioUpdates rs) \<le> length rs"
      by (simp add: bioUpdates_def)
    ultimately show "detectConflicts prof rs = []"
      using short by (simp add: detectConflicts_def)
  qed
qed

text \<open>
  The amended C7 at Scenario D, where the bio conflict is raised, and at a cycle with
  a single platform, where nothing is.
\<close>

theorem bio_conflict_detection_witness:
  "(\<exists>r1\<in>set scenario_D. \<exists>r2\<in>set scenario_D. \<exists>b1 b2.
       bio_change r1 = Some b1 \<and> b1 \<noteq> [] \<and> bio_change r2 = Some b2 \<and> b2 \<noteq> []
       \<and> normal_form b1 \<noteq> normal_form b2)
   \<and> (\<exists>c\<in>set (detectConflicts example_profile scenario_D).
         conflictType c = ''bio_conflict'' \<and> c = bio_conflict scenario_D
         \<and> severity c = high \<and> \<not> autoResolvable c)
   \<and> length single_platform \<le> 1
   \<and> detectConflicts example_profile single_platform = []"
proof -
  have b1: "bio_change (reported ''tiktok'' (Some 1000) (Some ''Dancer and singer'') 1)
            = Some ''Dancer and singer''"
    and b2: "bio_change (reported ''instagram'' (Some 1000) (Some ''Painter'') 2) = Some ''Painter''"
    by (simp_all add: bio_change_def reported_def)
  have d: "normal_form ''Dancer and singer'' \<noteq> normal_form ''Painter''"
    by (simp add: normal_form_def is_space_def lower_char_def)
  have rhs: "\<exists>r1\<in>set scenario_D. \<exists>r2\<in>set scenario_D. \<exists>b1 b2.
       bio_change r1 = Some b1 \<and> b1 \<noteq> [] \<and> bio_change r2 = Some b2 \<and> b2 \<noteq> []
       \<and> normal_form b1 \<noteq> normal_form b2"
    unfolding scenario_D_def using b1 b2 d by fastforce
  note inst = bio_conflict_detection [of example_profile scenario_D]
  from inst rhs obtain c where c: "c \<in> set (detectConflicts example_profile scenario_D)"
    "conflictType c = ''bio_conflict''"
    by blast
  with inst have "c = bio_conflict scenario_D \<and> severity c = high \<and> \<not> autoResolvable c"
    by blast
  with c have lhs: "\<exists>c\<in>set (detectConflicts example_profile scenario_D).
         conflictType c = ''bio_conflict'' \<and> c = bio_conflict scenario_D
         \<and> severity c = high \<and> \<not> autoResolvable c"
    by blast
  have short: "length single_platform \<le> 1"
    by (simp add: single_platform_def)
  with bio_conflict_detection [of example_profile single_platform]
  have "detectConflicts example_profile single_platform = []"
    by blast
  with rhs lhs short show ?thesis
    by blast
qed

text \<open>
  C7 as stated fails twice. When TikTok alone reports a follower count and Instagram
  cannot be reached, the missing count is taken as 0 and a conflict is raised on the
  follower count, a field one platform reported. When both platforms report a new
  bio and one of the two is the empty string, the values differ and no conflict is
  raised.
\<close>

theorem bio_conflict_detection_counterexample:
  "map metrics single_reporter = [Some \<lparr>followerCount = Some 1000\<rparr>, None]
   \<and> detectConflicts example_profile single_reporter = [follower_conflict single_reporter]
   \<and> field (follower_conflict single_reporter) = ''metrics.followerCount''
   \<and> map bio_change empty_bio_cycle = [Some [], Some ''Painter'']
   \<and> normal_form [] \<noteq> normal_form ''Painter''
   \<and> detectConflicts example_profile empty_bio_cycle = []"
proof -
  have "normal_form [] \<noteq> normal_form ''Painter''"
    by (simp add: normal_form_def is_space_def lower_char_def)
  moreover have "map bio_change empty_bio_cycle = [Some [], Some ''Painter'']"
    by (simp add: empty_bio_cycle_def reported_def bio_change_def)
  moreover have "map metrics single_reporter = [Some \<lparr>followerCount = Some 1000\<rparr>, None]"
    by (simp add: single_reporter_def reported_def unreachable_def)
  moreover have "field (follower_conflict single_reporter) = ''metrics.followerCount''"
    by (simp add: follower_conflict_def)
  ultimately show ?thesis
    using single_reporter_conflicts empty_bio_conflicts by simp
qed

section \<open>Properties of the sync cycle\<close>

text \<open>
  The resolver never throws on what \<^verbatim>\<open>detectConflicts\<close> raises: a follower conflict
  has at least one candidate, and the longest-value strategy is a pure function.
\<close>

lemma resolve_total: "\<exists>st. resolve parts history prof rs = Inr st"
proof -
  have follower: "\<exists>r. latestTimestamp_resolve parts (follower_conflict rs) = Inr r"
    if "hasSignificantVariance
           (map (\<lambda>f. real (case count f of None \<Rightarrow> 0 | Some n \<Rightarrow> n)) (followerCounts rs))"
  proof -
    from that have "followerCounts rs \<noteq> []"
      by (auto simp: hasSignificantVariance_def)
    then obtain v vs where "followerCounts rs = v # vs"
      by (cases "followerCounts rs") auto
    then show ?thesis
      by (simp add: latestTimestamp_resolve_def reduce_latest_def follower_conflict_def)
  qed
  show ?thesis
    unfolding resolve_def detectConflicts_def
    using follower
    by (auto simp: conflict_types follower_strategy bio_strategy)
qed

text \<open>
  One platform's sync: a fetch that answers gives the success result with the
  transformed metrics; a fetch that throws an \<^verbatim>\<open>Error\<close> gives the failure result
  with its message; a fetch that throws \<^verbatim>\<open>null\<close> makes the promise reject.
\<close>

lemma tiktok_synced:
  "syncWithPlatform (example_engine t) example_profile (example_connection ''tiktok'')
     tiktok_adapter
   = Inr (reported ''tiktok'' (Some 1000) None 1)"
  by (simp add: syncWithPlatform_def example_engine_def tiktok_adapter_def
      example_connection_def reported_def)

lemma instagram_synced:
  "syncWithPlatform (example_engine t) example_profile (example_connection ''instagram'')
     (instagram_adapter t)
   = caught (example_engine t) (example_connection ''instagram'') t"
  by (simp add: syncWithPlatform_def instagram_adapter_def)

lemma example_adapters:
  "platformAdapters (example_engine t) (platformId (example_connection ''tiktok''))
   = Some tiktok_adapter"
  "platformAdapters (example_engine t) (platformId (example_connection ''instagram''))
   = Some (instagram_adapter t)"
  "connectionStatus (example_connection p) = connected"
  by (simp_all add: example_engine_def example_connection_def)

lemma example_results:
  "map (sync_connection (example_engine t) example_profile)
     (platformConnections example_profile)
   = [Inr (Some (reported ''tiktok'' (Some 1000) None 1)),
      map_sum id Some (caught (example_engine t) (example_connection ''instagram'') t)]"
proof -
  have "sync_connection (example_engine t) example_profile (example_connection ''tiktok'')
        = Inr (Some (reported ''tiktok'' (Some 1000) None 1))"
    by (simp add: sync_connection_def example_adapters tiktok_synced)
  moreover have "sync_connection (example_engine t) example_profile
                   (example_connection ''instagram'')
        = map_sum id Some (caught (example_engine t) (example_connection ''instagram'') t)"
    by (simp add: sync_connection_def example_adapters instagram_synced split: sum.split)
  moreover have "platformConnections example_profile
        = [example_connection ''tiktok'', example_connection ''instagram'']"
    by (simp add: example_profile_def)
  ultimately show ?thesis
    by simp
qed

text \<open>
  When Instagram's fetch throws an \<^verbatim>\<open>Error\<close>, the cycle completes: TikTok's result
  and Instagram's failure result both reach the resolver and both platforms are
  listed in \<^verbatim>\<open>syncedPlatforms\<close>. The failure result counts as a follower count of 0
  with the latest timestamp, so that the follower conflict it raises against
  TikTok's 1000 is resolved to \<^verbatim>\<open>undefined\<close>.
\<close>

lemma error_cycle_results:
  "validResults (example_engine (Error ''rate limited'')) example_profile
   = Inr single_reporter"
  unfolding validResults_def example_results
  by (simp add: single_reporter_def unreachable_def failure_result_def example_engine_def
      example_connection_def List.map_filter_simps)

lemma single_reporter_latest:
  "latestTimestamp_resolve example_parts (follower_conflict single_reporter)
   = Inr \<lparr>resolvedValue = JUndefined, strategy = ''latest_timestamp'',
          resolutionConfidence = to_double (9 / 10),
          reasoning = ''Used latest value from instagram (1970-01-01)''\<rparr>"
  by (simp add: latestTimestamp_resolve_def follower_conflict_def followerCounts_def
      single_reporter_def reported_def unreachable_def followerCount_or_0_def
      reduce_latest_def later_def count_or_value_def example_parts_def)

lemma error_cycle:
  "syncCreatorProfile (example_engine (Error ''rate limited'')) example_parts [] ''uci_1''
   = Inr \<lparr>syncResult =
            \<lparr>syncSuccess = False,
             syncedPlatforms = [''tiktok'', ''instagram''],
             syncTimestamp = 3\<rparr>,
          updatedProfile = example_profile,
          conflictHistory =
            [\<lparr>recordedConflict = follower_conflict single_reporter,
              recordedResolution =
                \<lparr>resolvedValue = JUndefined, strategy = ''latest_timestamp'',
                 resolutionConfidence = to_double (9 / 10),
                 reasoning = ''Used latest value from instagram (1970-01-01)''\<rparr>\<rparr>],
          platformResults = single_reporter\<rparr>"
proof -
  have r: "resolve example_parts [] example_profile single_reporter
        = Inr (example_profile,
               [\<lparr>recordedConflict = follower_conflict single_reporter,
                 recordedResolution =
                   \<lparr>resolvedValue = JUndefined, strategy = ''latest_timestamp'',
                    resolutionConfidence = to_double (9 / 10),
                    reasoning = ''Used latest value from instagram (1970-01-01)''\<rparr>\<rparr>])"
  proof -
    have "applyResolution example_parts example_profile
            \<lparr>resolvedValue = JUndefined, strategy = ''latest_timestamp'',
             resolutionConfidence = to_double (9 / 10),
             reasoning = ''Used latest value from instagram (1970-01-01)''\<rparr>
          = example_profile"
      by (simp add: example_parts_def)
    then show ?thesis
      by (simp add: resolve_def single_reporter_conflicts conflict_types follower_strategy
          single_reporter_latest)
  qed
  have e: "getCreatorProfile (example_engine (Error ''rate limited'')) ''uci_1''
           = Inr example_profile"
    "updateCreatorProfile (example_engine (Error ''rate limited'')) example_profile = Inr ()"
    "finishedAt (example_engine (Error ''rate limited'')) = 3"
    by (simp_all add: example_engine_def)
  have l: "list_all success single_reporter = False"
    "map resultPlatformId single_reporter = [''tiktok'', ''instagram'']"
    by (simp_all add: single_reporter_def reported_def unreachable_def)
  show ?thesis
    by (simp add: syncCreatorProfile_def e error_cycle_results r l)
qed

text \<open>
  Claim C8, at the input where the code departs from it. TikTok's fetch answers and
  Instagram's fetch throws \<^verbatim>\<open>null\<close>. TikTok's own sync returns its result, but reading
  \<^verbatim>\<open>error.message\<close> in the \<^verbatim>\<open>catch\<close> clause of Instagram's sync throws a
  \<^verbatim>\<open>TypeError\<close>, \<^verbatim>\<open>Promise.all\<close> rejects, and the whole cycle rejects with that error:
  no conflict is resolved, no profile is updated and no \<^verbatim>\<open>syncedPlatforms\<close> is
  returned.
\<close>

theorem null_rejection_aborts_cycle:
  "syncWithPlatform (example_engine Nullish) example_profile (example_connection ''tiktok'')
     tiktok_adapter
     = Inr (reported ''tiktok'' (Some 1000) None 1)
   \<and> fetchProfileData (instagram_adapter Nullish) (example_connection ''instagram'')
       = Inl Nullish
   \<and> syncWithPlatform (example_engine Nullish) example_profile
       (example_connection ''instagram'') (instagram_adapter Nullish)
     = Inl TypeError
   \<and> validResults (example_engine Nullish) example_profile = Inl TypeError
   \<and> syncCreatorProfile (example_engine Nullish) example_parts [] ''uci_1'' = Inl TypeError"
proof (intro conjI)
  show "syncWithPlatform (example_engine Nullish) example_profile
          (example_connection ''tiktok'') tiktok_adapter
        = Inr (reported ''tiktok'' (Some 1000) None 1)"
    by (rule tiktok_synced)
  show "fetchProfileData (instagram_adapter Nullish) (example_connection ''instagram'')
        = Inl Nullish"
    by (simp add: instagram_adapter_def)
  show "syncWithPlatform (example_engine Nullish) example_profile
          (example_connection ''instagram'') (instagram_adapter Nullish)
        = Inl TypeError"
    by (simp add: instagram_synced)
  show v: "validResults (example_engine Nullish) example_profile = Inl TypeError"
    unfolding validResults_def example_results by simp
  have "getCreatorProfile (example_engine Nullish) ''uci_1'' = Inr example_profile"
    by (simp add: example_engine_def)
  then show "syncCreatorProfile (example_engine Nullish) example_parts [] ''uci_1''
             = Inl TypeError"
    by (simp add: syncCreatorProfile_def v)
qed

end
